theory Spec2Isabelle
  imports Main "HOL-Library.Word"
begin

section \<open>porta_pty.c: a native shim around forkpty and execvp\<close>

text \<open>
  The C file exports \<^verbatim>\<open>pty_spawn\<close>, \<^verbatim>\<open>pty_resize\<close> and four one-line wrappers.
  Everything it does is a sequence of calls into libc and the kernel, so the embedding
  threads an explicit process state through the calls: the environment, the working
  directory, \<^verbatim>\<open>errno\<close>, the table of open descriptors, and a log of the calls
  made so far (oldest first). The log is what makes statements about order and about
  "no call of this kind" possible. The environment is a map from names to values, which
  is what \<^verbatim>\<open>getenv\<close> observes of it. The descriptor table is consulted by
  \<^verbatim>\<open>ioctl\<close> only.

  Integers of type \<^verbatim>\<open>int\<close> and \<^verbatim>\<open>pid_t\<close> are only compared and copied,
  never computed with, so they are \<open>int\<close>. The fixed-width fields that cross the
  library boundary are words of their C width.
\<close>

subsection \<open>The structures declared in the source\<close>

text \<open>\<^verbatim>\<open>pty_termios_t\<close>, lines 40-48. \<^verbatim>\<open>c_cc\<close> is \<^verbatim>\<open>unsigned char[32]\<close>:
  a list whose length \<open>pty_termios_ok\<close> fixes at 32.\<close>

record pty_termios =
  c_iflag :: "32 word"
  c_oflag :: "32 word"
  c_cflag :: "32 word"
  c_lflag :: "32 word"
  c_cc :: "8 word list"
  c_ispeed :: "32 word"
  c_ospeed :: "32 word"

definition pty_termios_ok :: "pty_termios \<Rightarrow> bool" where
  "pty_termios_ok ts \<longleftrightarrow> length (c_cc ts) = 32"

text \<open>\<^verbatim>\<open>pty_winsize_t\<close>, lines 53-58.\<close>

record pty_winsize =
  ws_row :: "16 word"
  ws_col :: "16 word"
  ws_xpixel :: "16 word"
  ws_ypixel :: "16 word"

text \<open>\<^verbatim>\<open>pty_spawn_result_t\<close>, lines 63-67.\<close>

record pty_spawn_result =
  master_fd :: int
  pid :: int
  error :: int

subsection \<open>The structures of the operating system\<close>

text \<open>
  \<^verbatim>\<open>struct termios\<close> comes from \<^verbatim>\<open>termios.h\<close>, not from the source. Its flag type
  \<^verbatim>\<open>tcflag_t\<close> and speed type \<^verbatim>\<open>speed_t\<close> are \<^verbatim>\<open>unsigned int\<close> on Linux and
  \<^verbatim>\<open>unsigned long\<close> on macOS, so their widths are the type parameters \<open>'f\<close> and
  \<open>'s\<close>; the length of \<^verbatim>\<open>c_cc\<close> is the platform constant \<^verbatim>\<open>NCCS\<close>. Linux has
  one further member, the line discipline \<^verbatim>\<open>c_line\<close>; it stands here for every
  member the source never assigns.
\<close>

record (overloaded) ('f, 's) termios =
  tio_iflag :: "'f word"
  tio_oflag :: "'f word"
  tio_cflag :: "'f word"
  tio_lflag :: "'f word"
  tio_line :: "8 word"
  tio_cc :: "8 word list"
  tio_ispeed :: "'s word"
  tio_ospeed :: "'s word"

text \<open>\<^verbatim>\<open>struct winsize\<close>: four \<^verbatim>\<open>unsigned short\<close> on every platform.\<close>

record winsize =
  sys_row :: "16 word"
  sys_col :: "16 word"
  sys_xpixel :: "16 word"
  sys_ypixel :: "16 word"

subsection \<open>Process state and the log of calls\<close>

datatype 't syscall =
    Forkpty "'t option" "winsize option"
  | Chdir string
  | Getenv string
  | Setenv string string bool
  | Unsetenv string
  | Execvp string "string list"
  | Exit int
  | Ioctl_TIOCSWINSZ int winsize

text \<open>What an open descriptor refers to: a terminal with its current window size, or
  something that is not a terminal.\<close>

datatype fd_kind = Tty winsize | Not_a_tty

record 't proc =
  environ :: "string \<rightharpoonup> string"
  cwd :: string
  errno :: int
  fds :: "int \<rightharpoonup> fd_kind"
  calls :: "'t syscall list"

definition logcall :: "'t syscall \<Rightarrow> 't proc \<Rightarrow> 't proc" where
  "logcall c p = p\<lparr>calls := calls p @ [c]\<rparr>"

definition EBADF :: int where "EBADF = 9"
definition EINVAL :: int where "EINVAL = 22"
definition ENOTTY :: int where "ENOTTY = 25"

subsection \<open>The libc calls the source makes\<close>

text \<open>
  None of these functions is code of the repository. Those whose behaviour POSIX fixes
  are written out after POSIX; those whose behaviour depends on the platform or on the
  file system are fields of the record \<open>sys\<close> below and stay arbitrary in every theorem.

  \<^verbatim>\<open>getenv\<close>: the value of the name, \<open>None\<close> for the null pointer.
\<close>

definition getenv :: "string \<Rightarrow> 't proc \<Rightarrow> string option \<times> 't proc" where
  "getenv name p = (environ p name, logcall (Getenv name) p)"

text \<open>
  \<^verbatim>\<open>setenv(name, value, overwrite)\<close>: fails with \<^verbatim>\<open>EINVAL\<close> for an empty name
  or a name containing \<^verbatim>\<open>=\<close>; keeps an existing value when \<open>overwrite\<close> is 0.
  Running out of memory (\<^verbatim>\<open>ENOMEM\<close>) is outside the model.
\<close>

definition setenv :: "string \<Rightarrow> string \<Rightarrow> bool \<Rightarrow> 't proc \<Rightarrow> int \<times> 't proc" where
  "setenv name val overwrite p =
     (let p' = logcall (Setenv name val overwrite) p in
      if name = [] \<or> CHR ''='' \<in> set name then (- 1, p'\<lparr>errno := EINVAL\<rparr>)
      else if \<not> overwrite \<and> environ p name \<noteq> None then (0, p')
      else (0, p'\<lparr>environ := (environ p)(name \<mapsto> val)\<rparr>))"

text \<open>\<^verbatim>\<open>unsetenv(name)\<close>: the same names are refused; removing an absent name succeeds.\<close>

definition unsetenv :: "string \<Rightarrow> 't proc \<Rightarrow> int \<times> 't proc" where
  "unsetenv name p =
     (let p' = logcall (Unsetenv name) p in
      if name = [] \<or> CHR ''='' \<in> set name then (- 1, p'\<lparr>errno := EINVAL\<rparr>)
      else (0, p'\<lparr>environ := (environ p)(name := None)\<rparr>))"

text \<open>
  \<^verbatim>\<open>strchr(s, c)\<close> for a character \<open>c\<close> other than NUL: the offset of the first
  occurrence, \<open>None\<close> for the null pointer.
\<close>

fun strchr :: "string \<Rightarrow> char \<Rightarrow> nat option" where
  "strchr [] c = None"
| "strchr (x # xs) c = (if x = c then Some 0 else map_option Suc (strchr xs c))"

text \<open>\<^verbatim>\<open>memcpy(dst, src, n)\<close> on byte arrays, for \<open>n\<close> within both.\<close>

definition memcpy :: "'a list \<Rightarrow> 'a list \<Rightarrow> nat \<Rightarrow> 'a list" where
  "memcpy dst src n = take n src @ drop n dst"

text \<open>
  \<^verbatim>\<open>ioctl(fd, TIOCSWINSZ, &ws)\<close>: on a terminal it stores the size and returns 0;
  on anything else it returns -1, sets \<^verbatim>\<open>errno\<close> and changes nothing.
\<close>

definition ioctl_TIOCSWINSZ :: "int \<Rightarrow> winsize \<Rightarrow> 't proc \<Rightarrow> int \<times> 't proc" where
  "ioctl_TIOCSWINSZ fd ws p =
     (let p' = logcall (Ioctl_TIOCSWINSZ fd ws) p in
      case fds p fd of
        None \<Rightarrow> (- 1, p'\<lparr>errno := EBADF\<rparr>)
      | Some Not_a_tty \<Rightarrow> (- 1, p'\<lparr>errno := ENOTTY\<rparr>)
      | Some (Tty old) \<Rightarrow> (0, p'\<lparr>fds := (fds p)(fd \<mapsto> Tty ws)\<rparr>))"

text \<open>
  The platform: \<^verbatim>\<open>NCCS\<close>, the two speed setters (glibc folds the speed into
  \<^verbatim>\<open>c_cflag\<close>, the BSDs store it in a member of its own), and what the file system
  answers to \<^verbatim>\<open>chdir\<close> and \<^verbatim>\<open>execvp\<close>: \<open>Inl e\<close> and \<open>Some e\<close> are a failure
  with \<^verbatim>\<open>errno = e\<close>, \<open>Inr d\<close> the new working directory, \<open>None\<close> a successful
  image replacement.
\<close>

record (overloaded) ('f, 's) sys =
  NCCS :: nat
  cfsetispeed :: "('f, 's) termios \<Rightarrow> 's word \<Rightarrow> ('f, 's) termios"
  cfsetospeed :: "('f, 's) termios \<Rightarrow> 's word \<Rightarrow> ('f, 's) termios"
  chdir_answer :: "string \<Rightarrow> string \<Rightarrow> int + string"
  execvp_answer :: "string \<Rightarrow> string list \<Rightarrow> (string \<rightharpoonup> string) \<Rightarrow> string \<Rightarrow> int option"

definition chdir :: "('f, 's) sys \<Rightarrow> string \<Rightarrow> ('f, 's) termios proc \<Rightarrow> int \<times> ('f, 's) termios proc" where
  "chdir os path p =
     (let p' = logcall (Chdir path) p in
      case chdir_answer os (cwd p) path of
        Inl e \<Rightarrow> (- 1, p'\<lparr>errno := e\<rparr>)
      | Inr d \<Rightarrow> (0, p'\<lparr>cwd := d\<rparr>))"

text \<open>\<^verbatim>\<open>execvp\<close> returns only when it fails: \<open>None\<close> stands for "did not return".\<close>

definition execvp :: "('f, 's) sys \<Rightarrow> string \<Rightarrow> string list \<Rightarrow> ('f, 's) termios proc \<Rightarrow> int option \<times> ('f, 's) termios proc" where
  "execvp os file argv p =
     (let p' = logcall (Execvp file argv) p in
      case execvp_answer os file argv (environ p) (cwd p) of
        None \<Rightarrow> (None, p')
      | Some e \<Rightarrow> (Some (- 1), p'\<lparr>errno := e\<rparr>))"

text \<open>
  What one return of \<^verbatim>\<open>forkpty\<close> looks like to the process that receives it: the
  value returned, the value stored through \<^verbatim>\<open>&master_fd\<close> (if any) and the value
  stored in \<^verbatim>\<open>errno\<close> (if any). After a successful fork the function body runs once
  in each process, each with its own \<open>forkpty_ret\<close>.
\<close>

record forkpty_ret =
  fk_pid :: int
  fk_master :: "int option"
  fk_errno :: "int option"

text \<open>The POSIX contract of \<^verbatim>\<open>forkpty\<close>: -1 with a nonzero \<^verbatim>\<open>errno\<close>, or 0 in
  the child, or the child's positive pid with a valid master descriptor in the parent.\<close>

definition forkpty_posix :: "forkpty_ret \<Rightarrow> bool" where
  "forkpty_posix fk \<longleftrightarrow>
     (fk_pid fk = - 1 \<and> (case fk_errno fk of None \<Rightarrow> False | Some e \<Rightarrow> e \<noteq> 0))
   \<or> (fk_pid fk = 0)
   \<or> (0 < fk_pid fk \<and> (case fk_master fk of None \<Rightarrow> False | Some m \<Rightarrow> 0 \<le> m))"

definition forkpty :: "forkpty_ret \<Rightarrow> int \<Rightarrow> ('f, 's) termios option \<Rightarrow> winsize option \<Rightarrow>
    ('f, 's) termios proc \<Rightarrow> (int \<times> int) \<times> ('f, 's) termios proc" where
  "forkpty fk master termp winp p =
     (let p' = logcall (Forkpty termp winp) p in
      ((fk_pid fk, case fk_master fk of None \<Rightarrow> master | Some m \<Rightarrow> m),
       case fk_errno fk of None \<Rightarrow> p' | Some e \<Rightarrow> p'\<lparr>errno := e\<rparr>))"

subsection \<open>pty_spawn, lines 87-195\<close>

text \<open>
  How one execution of the body ends: it returns to its caller, or the process
  terminates through \<^verbatim>\<open>_exit\<close>, or \<^verbatim>\<open>execvp\<close> replaces the image. The last two
  never give control back to the caller.
\<close>

datatype 't outcome =
    Returned pty_spawn_result "'t proc"
  | Exited int "'t proc"
  | Replaced string "string list" "'t proc"

text \<open>\<^verbatim>\<open>memset(&term, 0, sizeof(term))\<close>, line 102.\<close>

definition zero_termios :: "nat \<Rightarrow> ('f::len, 's::len) termios" where
  "zero_termios n =
     \<lparr>tio_iflag = 0, tio_oflag = 0, tio_cflag = 0, tio_lflag = 0, tio_line = 0,
      tio_cc = replicate n 0, tio_ispeed = 0, tio_ospeed = 0\<rparr>"

text \<open>
  Lines 101-117, the body of \<^verbatim>\<open>if (termios_settings != NULL)\<close>. The assignments
  convert \<^verbatim>\<open>unsigned int\<close> to the native type, which is \<open>ucast\<close>.
\<close>

definition spawn_termios :: "('f::len, 's::len) sys \<Rightarrow> pty_termios \<Rightarrow> ('f, 's) termios" where
  "spawn_termios os termios_settings =
     (let term = zero_termios (NCCS os);
          term = term\<lparr>tio_iflag := ucast (c_iflag termios_settings)\<rparr>;
          term = term\<lparr>tio_oflag := ucast (c_oflag termios_settings)\<rparr>;
          term = term\<lparr>tio_cflag := ucast (c_cflag termios_settings)\<rparr>;
          term = term\<lparr>tio_lflag := ucast (c_lflag termios_settings)\<rparr>;
          cc_size = NCCS os;
          cc_size = (if cc_size > 32 then 32 else cc_size);
          term = term\<lparr>tio_cc := memcpy (tio_cc term) (c_cc termios_settings) cc_size\<rparr>;
          term = cfsetispeed os term (ucast (c_ispeed termios_settings));
          term = cfsetospeed os term (ucast (c_ospeed termios_settings))
      in term)"

text \<open>Lines 123-129, the body of \<^verbatim>\<open>if (winsize_settings != NULL)\<close>.\<close>

definition spawn_winsize :: "pty_winsize \<Rightarrow> winsize" where
  "spawn_winsize winsize_settings =
     \<lparr>sys_row = ws_row winsize_settings, sys_col = ws_col winsize_settings,
      sys_xpixel = ws_xpixel winsize_settings, sys_ypixel = ws_ypixel winsize_settings\<rparr>"

text \<open>
  Lines 162-178, the body of the \<^verbatim>\<open>for\<close> loop on one entry. \<open>key_len\<close> is
  \<^verbatim>\<open>eq - envp[i]\<close>, the key the first \<open>key_len\<close> bytes, the value starts at
  \<^verbatim>\<open>eq + 1\<close>. The results of \<^verbatim>\<open>setenv\<close> and \<^verbatim>\<open>unsetenv\<close> are dropped, as in
  the source. The key is built in \<^verbatim>\<open>alloca\<close> memory; stack exhaustion is outside
  the model.
\<close>

definition envp_entry :: "string \<Rightarrow> 't proc \<Rightarrow> 't proc" where
  "envp_entry entry p =
     (case strchr entry CHR ''='' of
        None \<Rightarrow> p
      | Some key_len \<Rightarrow>
          (let key = take key_len entry;
               val = drop (key_len + 1) entry
           in if val = [] then snd (unsetenv key p)
              else snd (setenv key val True p)))"

text \<open>Lines 161-179: \<^verbatim>\<open>for (int i = 0; envp[i] != NULL; i++)\<close>. The array is the
  list, the terminating null pointer its end. The counter is a \<open>nat\<close>: the source's
  \<^verbatim>\<open>int\<close> could only overflow on an array of more than \<open>2^31\<close> entries.\<close>

function envp_loop :: "string list \<Rightarrow> nat \<Rightarrow> 't proc \<Rightarrow> 't proc" where
  "envp_loop envp i p =
     (if i < length envp then envp_loop envp (i + 1) (envp_entry (envp ! i) p) else p)"
  by pat_completeness auto
termination
  by (relation "measure (\<lambda>(envp, i, p). length envp - i)") auto

text \<open>\<^verbatim>\<open>_exit(errno)\<close>, lines 150 and 186.\<close>

definition exit_errno :: "'t proc \<Rightarrow> 't outcome" where
  "exit_errno p = Exited (errno p) (logcall (Exit (errno p)) p)"

text \<open>
  The branch \<^verbatim>\<open>pid == 0\<close>, lines 141-187, block by block.
  Lines 147-152: the working directory, when one is given and not empty. The pair is
  the result of \<^verbatim>\<open>chdir\<close> (0 when it is not called) and the state after it.
\<close>

definition child_chdir :: "('f::len, 's::len) sys \<Rightarrow> string option \<Rightarrow> ('f, 's) termios proc \<Rightarrow>
    int \<times> ('f, 's) termios proc" where
  "child_chdir os working_dir p =
     (case working_dir of
        None \<Rightarrow> (0, p)
      | Some d \<Rightarrow> if d \<noteq> [] then chdir os d p else (0, p))"

text \<open>Lines 154-157: the default for \<^verbatim>\<open>TERM\<close>.\<close>

definition child_term :: "'t proc \<Rightarrow> 't proc" where
  "child_term p =
     (let (term_v, p') = getenv ''TERM'' p
      in if term_v = None then snd (setenv ''TERM'' ''xterm-256color'' False p') else p')"

text \<open>Lines 159-180: the overrides, when \<^verbatim>\<open>envp\<close> is not null.\<close>

definition child_envp :: "string list option \<Rightarrow> 't proc \<Rightarrow> 't proc" where
  "child_envp envp p = (case envp of None \<Rightarrow> p | Some es \<Rightarrow> envp_loop es 0 p)"

text \<open>Lines 182-186: \<^verbatim>\<open>execvp\<close>, and \<^verbatim>\<open>_exit(errno)\<close> if it returns.\<close>

definition child_exec :: "('f::len, 's::len) sys \<Rightarrow> string \<Rightarrow> string list \<Rightarrow> ('f, 's) termios proc \<Rightarrow>
    ('f, 's) termios outcome" where
  "child_exec os file argv p =
     (let (r, p') = execvp os file argv p
      in case r of None \<Rightarrow> Replaced file argv p' | Some failed \<Rightarrow> exit_errno p')"

definition spawn_child :: "('f::len, 's::len) sys \<Rightarrow> string \<Rightarrow> string list \<Rightarrow> string list option \<Rightarrow>
    string option \<Rightarrow> ('f, 's) termios proc \<Rightarrow> ('f, 's) termios outcome" where
  "spawn_child os file argv envp working_dir p0 =
     (let (rc, p1) = child_chdir os working_dir p0
      in if rc = - 1 then exit_errno p1
         else child_exec os file argv (child_envp envp (child_term p1)))"

text \<open>The whole function. \<open>fk\<close> is what \<^verbatim>\<open>forkpty\<close> answers in the process whose
  execution is followed.\<close>

definition pty_spawn :: "('f::len, 's::len) sys \<Rightarrow> forkpty_ret \<Rightarrow> string \<Rightarrow> string list \<Rightarrow>
    string list option \<Rightarrow> string option \<Rightarrow> pty_termios option \<Rightarrow> pty_winsize option \<Rightarrow>
    ('f, 's) termios proc \<Rightarrow> ('f, 's) termios outcome" where
  "pty_spawn os fk file argv envp working_dir termios_settings winsize_settings p =
     (let result = \<lparr>master_fd = - 1, pid = - 1, error = 0\<rparr>;
          term_ptr = map_option (spawn_termios os) termios_settings;
          ws_ptr = map_option spawn_winsize winsize_settings;
          ((pid_v, master_v), p1) = forkpty fk (- 1) term_ptr ws_ptr p
      in if pid_v = - 1 then Returned (result\<lparr>error := errno p1\<rparr>) p1
         else if pid_v = 0 then spawn_child os file argv envp working_dir p1
         else Returned (result\<lparr>master_fd := master_v, pid := pid_v, error := 0\<rparr>) p1)"

subsection \<open>pty_resize, lines 208-217\<close>

definition pty_resize :: "int \<Rightarrow> 16 word \<Rightarrow> 16 word \<Rightarrow> 't proc \<Rightarrow> int \<times> 't proc" where
  "pty_resize fd rows cols p =
     (let ws = \<lparr>sys_row = rows, sys_col = cols, sys_xpixel = 0, sys_ypixel = 0\<rparr>
      in ioctl_TIOCSWINSZ fd ws p)"

subsection \<open>Program points\<close>

text \<open>The process state an execution ends with, however it ends.\<close>

fun final_proc :: "'t outcome \<Rightarrow> 't proc" where
  "final_proc (Returned r p) = p"
| "final_proc (Exited e p) = p"
| "final_proc (Replaced f a p) = p"

text \<open>The arguments the source hands to \<^verbatim>\<open>forkpty\<close> on line 133, and the state on
  line 135, when \<^verbatim>\<open>forkpty\<close> has returned.\<close>

definition term_ptr :: "('f::len, 's::len) sys \<Rightarrow> pty_termios option \<Rightarrow> ('f, 's) termios option" where
  "term_ptr os termios_settings = map_option (spawn_termios os) termios_settings"

definition ws_ptr :: "pty_winsize option \<Rightarrow> winsize option" where
  "ws_ptr winsize_settings = map_option spawn_winsize winsize_settings"

definition after_fork :: "('f::len, 's::len) sys \<Rightarrow> forkpty_ret \<Rightarrow> pty_termios option \<Rightarrow>
    pty_winsize option \<Rightarrow> ('f, 's) termios proc \<Rightarrow> ('f, 's) termios proc" where
  "after_fork os fk ts ws p = snd (forkpty fk (- 1) (term_ptr os ts) (ws_ptr ws) p)"

text \<open>The child's state on line 159, before the overrides, and on line 183, before
  \<^verbatim>\<open>execvp\<close>; both are meant for executions in which \<^verbatim>\<open>chdir\<close> did not fail.\<close>

definition before_overrides :: "('f::len, 's::len) sys \<Rightarrow> forkpty_ret \<Rightarrow> string option \<Rightarrow>
    pty_termios option \<Rightarrow> pty_winsize option \<Rightarrow> ('f, 's) termios proc \<Rightarrow> ('f, 's) termios proc" where
  "before_overrides os fk wd ts ws p = child_term (snd (child_chdir os wd (after_fork os fk ts ws p)))"

definition before_exec :: "('f::len, 's::len) sys \<Rightarrow> forkpty_ret \<Rightarrow> string list option \<Rightarrow> string option \<Rightarrow>
    pty_termios option \<Rightarrow> pty_winsize option \<Rightarrow> ('f, 's) termios proc \<Rightarrow> ('f, 's) termios proc" where
  "before_exec os fk envp wd ts ws p = child_envp envp (before_overrides os fk wd ts ws p)"

text \<open>The \<^verbatim>\<open>errno\<close> of a failing \<^verbatim>\<open>chdir\<close> on line 149; \<open>None\<close> when the call is
  not made or succeeds.\<close>

definition chdir_errno :: "('f::len, 's::len) sys \<Rightarrow> string option \<Rightarrow> string \<Rightarrow> int option" where
  "chdir_errno os wd dir =
     (case wd of
        None \<Rightarrow> None
      | Some d \<Rightarrow>
          if d = [] then None
          else (case chdir_answer os dir d of Inl e \<Rightarrow> Some e | Inr d' \<Rightarrow> None))"

subsection \<open>The specification's notions\<close>

text \<open>
  These definitions follow the words of the specification, not the source; the
  theorems compare them with the source's functions.

  An entry \<^verbatim>\<open>KEY=VALUE\<close> is split on its first \<^verbatim>\<open>=\<close>.
\<close>

definition key_of :: "string \<Rightarrow> string option" where
  "key_of entry =
     (if CHR ''='' \<in> set entry then Some (takeWhile (\<lambda>c. c \<noteq> CHR ''='') entry) else None)"

definition value_of :: "string \<Rightarrow> string" where
  "value_of entry = tl (dropWhile (\<lambda>c. c \<noteq> CHR ''='') entry)"

text \<open>One override: an empty value removes the key, any other value sets it,
  overwriting. An entry without \<^verbatim>\<open>=\<close> is no override.\<close>

definition override_spec :: "string \<Rightarrow> 't proc \<Rightarrow> 't proc" where
  "override_spec entry p =
     (case key_of entry of
        None \<Rightarrow> p
      | Some k \<Rightarrow>
          if value_of entry = [] then snd (unsetenv k p)
          else snd (setenv k (value_of entry) True p))"

text \<open>The libc call one entry stands for.\<close>

definition override_call :: "string \<Rightarrow> 't syscall list" where
  "override_call entry =
     (case key_of entry of
        None \<Rightarrow> []
      | Some k \<Rightarrow>
          if value_of entry = [] then [Unsetenv k]
          else [Setenv k (value_of entry) True])"

text \<open>The calls of the three configuration blocks of the child, as the specification
  lists them: working directory, default for \<^verbatim>\<open>TERM\<close>, overrides.\<close>

definition chdir_calls :: "string option \<Rightarrow> 't syscall list" where
  "chdir_calls wd = (case wd of None \<Rightarrow> [] | Some d \<Rightarrow> if d = [] then [] else [Chdir d])"

definition term_calls :: "(string \<rightharpoonup> string) \<Rightarrow> 't syscall list" where
  "term_calls env =
     Getenv ''TERM'' #
       (if env ''TERM'' = None then [Setenv ''TERM'' ''xterm-256color'' False] else [])"

definition envp_calls :: "string list option \<Rightarrow> 't syscall list" where
  "envp_calls envp = (case envp of None \<Rightarrow> [] | Some es \<Rightarrow> concat (map override_call es))"

text \<open>
  The translation of the terminal attributes before the speeds are set: the four flag
  words as they are, the control characters up to the smaller of the two capacities,
  zero everywhere else.
\<close>

definition termios_copy_spec :: "nat \<Rightarrow> pty_termios \<Rightarrow> ('f::len, 's::len) termios" where
  "termios_copy_spec nccs ts =
     \<lparr>tio_iflag = ucast (c_iflag ts), tio_oflag = ucast (c_oflag ts),
      tio_cflag = ucast (c_cflag ts), tio_lflag = ucast (c_lflag ts),
      tio_line = 0,
      tio_cc = take (min 32 nccs) (c_cc ts) @ replicate (nccs - min 32 nccs) 0,
      tio_ispeed = 0, tio_ospeed = 0\<rparr>"

text \<open>A speed setter that leaves alone the members that are neither flags nor speeds.\<close>

definition keeps_other_members :: "(('f::len, 's::len) termios \<Rightarrow> 's word \<Rightarrow> ('f, 's) termios) \<Rightarrow> bool" where
  "keeps_other_members setter \<longleftrightarrow>
     (\<forall>t s. tio_line (setter t s) = tio_line t \<and> tio_cc (setter t s) = tio_cc t)"

text \<open>
  The order the specification asks for, as a check on a log: once \<^verbatim>\<open>execvp\<close> is
  called, nothing follows but the \<^verbatim>\<open>_exit\<close> of a failed call.
\<close>

fun is_execvp :: "'t syscall \<Rightarrow> bool" where
  "is_execvp (Execvp f a) = True"
| "is_execvp c = False"

fun settled_before_exec :: "'t syscall list \<Rightarrow> bool" where
  "settled_before_exec [] = True"
| "settled_before_exec (Execvp f a # rest) = (case rest of [] \<Rightarrow> True | [Exit e] \<Rightarrow> True | _ \<Rightarrow> False)"
| "settled_before_exec (c # rest) = settled_before_exec rest"

subsection \<open>A platform and processes to evaluate on\<close>

text \<open>
  A platform with 32-bit flags and speeds, setters that store the speed in its own
  member, and 40 control characters, so that the native array is the longer one. Its
  file system knows the directory \<^verbatim>\<open>/tmp\<close> and the program \<^verbatim>\<open>/bin/sh\<close>; any other
  directory fails with \<^verbatim>\<open>ENOENT\<close> (2), any other program with \<^verbatim>\<open>EACCES\<close> (13).
\<close>

definition ex_sys :: "(32, 32) sys" where
  "ex_sys =
     \<lparr>NCCS = 40,
      cfsetispeed = (\<lambda>t s. t\<lparr>tio_ispeed := s\<rparr>),
      cfsetospeed = (\<lambda>t s. t\<lparr>tio_ospeed := s\<rparr>),
      chdir_answer = (\<lambda>dir path. if path = ''/tmp'' then Inr ''/tmp'' else Inl 2),
      execvp_answer = (\<lambda>file argv env dir. if file = ''/bin/sh'' then None else Some 13)\<rparr>"

definition ex_proc :: "(32, 32) termios proc" where
  "ex_proc =
     \<lparr>environ = [''HOME'' \<mapsto> ''/root''], cwd = ''/'', errno = 0,
      fds = [3 \<mapsto> Tty \<lparr>sys_row = 24, sys_col = 80, sys_xpixel = 0, sys_ypixel = 0\<rparr>],
      calls = []\<rparr>"

definition ex_child :: forkpty_ret where
  "ex_child = \<lparr>fk_pid = 0, fk_master = None, fk_errno = None\<rparr>"

definition ex_parent :: forkpty_ret where
  "ex_parent = \<lparr>fk_pid = 4242, fk_master = Some 5, fk_errno = None\<rparr>"

definition ex_failed :: forkpty_ret where
  "ex_failed = \<lparr>fk_pid = - 1, fk_master = None, fk_errno = Some 12\<rparr>"

definition ex_termios :: pty_termios where
  "ex_termios =
     \<lparr>c_iflag = 0x500, c_oflag = 5, c_cflag = 0xBF, c_lflag = 0x8A3B,
      c_cc = 3 # 28 # 127 # 21 # 4 # replicate 27 0,
      c_ispeed = 15, c_ospeed = 15\<rparr>"

definition ex_winsize :: pty_winsize where
  "ex_winsize = \<lparr>ws_row = 24, ws_col = 80, ws_xpixel = 0, ws_ypixel = 0\<rparr>"

section \<open>Lemmas\<close>

subsection \<open>The loop over the overrides\<close>

text \<open>
  \<^verbatim>\<open>strchr\<close> finds what \<open>takeWhile\<close> leaves, so the source's pointer arithmetic and
  the split on the first \<^verbatim>\<open>=\<close> agree, and the loop is a left fold over the array.
  The recursive equation of the loop is taken out of the simplifier, which would unfold
  it without end.
\<close>

lemma strchr_takeWhile:
  "strchr s c = (if c \<in> set s then Some (length (takeWhile (\<lambda>x. x \<noteq> c) s)) else None)"
  by (induction s) auto

lemma take_length_takeWhile: "take (length (takeWhile P s)) s = takeWhile P s"
  by (induction s) auto

lemma drop_Suc_length_takeWhile: "drop (Suc (length (takeWhile P s))) s = tl (dropWhile P s)"
  by (induction s) auto

lemma envp_entry_spec: "envp_entry e p = override_spec e p"
  by (simp add: envp_entry_def override_spec_def key_of_def value_of_def strchr_takeWhile
      take_length_takeWhile drop_Suc_length_takeWhile Let_def)

declare envp_loop.simps [simp del]

lemma envp_loop_foldl:
  "envp_loop envp i p = foldl (\<lambda>q e. envp_entry e q) p (drop i envp)"
proof (induction envp i p rule: envp_loop.induct)
  case (1 envp i p)
  show ?case
  proof (cases "i < length envp")
    case True
    then have d: "drop i envp = envp ! i # drop (Suc i) envp"
      by (simp add: Cons_nth_drop_Suc)
    have "envp_loop envp i p = envp_loop envp (i + 1) (envp_entry (envp ! i) p)"
      using True by (subst envp_loop.simps) simp
    also have "\<dots> = foldl (\<lambda>q e. envp_entry e q) (envp_entry (envp ! i) p) (drop (i + 1) envp)"
      using True by (rule "1.IH")
    finally show ?thesis by (simp add: d)
  next
    case False
    then show ?thesis by (subst envp_loop.simps) simp
  qed
qed

lemma calls_override_spec: "calls (override_spec e p) = calls p @ override_call e"
  by (simp add: override_spec_def override_call_def setenv_def unsetenv_def logcall_def Let_def
      split: option.splits)

lemma calls_foldl_override:
  "calls (foldl (\<lambda>q e. override_spec e q) p es) = calls p @ concat (map override_call es)"
  by (induction es arbitrary: p) (simp_all add: calls_override_spec)

lemma cwd_override_spec: "cwd (override_spec e p) = cwd p"
  by (simp add: override_spec_def setenv_def unsetenv_def logcall_def Let_def split: option.splits)

lemma fds_override_spec: "fds (override_spec e p) = fds p"
  by (simp add: override_spec_def setenv_def unsetenv_def logcall_def Let_def split: option.splits)

lemma environ_override_spec:
  "environ (override_spec e p) =
     (case key_of e of None \<Rightarrow> environ p
      | Some k \<Rightarrow> if k = [] then environ p
                  else if value_of e = [] then (environ p)(k := None)
                  else (environ p)(k \<mapsto> value_of e))"
  by (auto simp add: override_spec_def setenv_def unsetenv_def logcall_def Let_def key_of_def
      split: option.splits dest: set_takeWhileD)

lemma environ_override_other:
  "key_of e \<noteq> Some k \<Longrightarrow> environ (override_spec e p) k = environ p k"
  by (simp add: environ_override_spec split: option.splits)

lemma environ_override_empty_key: "environ (override_spec e p) [] = environ p []"
  by (simp add: environ_override_spec split: option.splits)

lemma environ_foldl_other:
  "\<forall>e\<in>set es. key_of e \<noteq> Some k \<Longrightarrow>
   environ (foldl (\<lambda>q e. override_spec e q) p es) k = environ p k"
  by (induction es arbitrary: p) (simp_all add: environ_override_other)

lemma environ_foldl_empty_key:
  "environ (foldl (\<lambda>q e. override_spec e q) p es) [] = environ p []"
  by (induction es arbitrary: p) (simp_all add: environ_override_empty_key)

lemma environ_override_same:
  "key_of e = Some k \<Longrightarrow> k \<noteq> [] \<Longrightarrow>
   environ (override_spec e p) k = (if value_of e = [] then None else Some (value_of e))"
  by (simp add: environ_override_spec)

lemma later_entry_wins:
  assumes "key_of e = Some k" "\<forall>e'\<in>set post. key_of e' \<noteq> Some k"
  shows "environ (foldl (\<lambda>q e. override_spec e q) p (pre @ e # post)) k = environ (override_spec e p) k"
proof (cases "k = []")
  case True
  then show ?thesis by (simp add: environ_foldl_empty_key environ_override_empty_key)
next
  case False
  with assms show ?thesis
    by (simp add: environ_foldl_other environ_override_same)
qed

subsection \<open>The branches of pty_spawn\<close>

lemma after_fork_simps:
  "environ (after_fork os fk ts ws p) = environ p"
  "cwd (after_fork os fk ts ws p) = cwd p"
  "fds (after_fork os fk ts ws p) = fds p"
  "calls (after_fork os fk ts ws p) = calls p @ [Forkpty (term_ptr os ts) (ws_ptr ws)]"
  "errno (after_fork os fk ts ws p) = (case fk_errno fk of None \<Rightarrow> errno p | Some e \<Rightarrow> e)"
  by (simp_all add: after_fork_def forkpty_def logcall_def Let_def split: option.splits)

lemma pty_spawn_paths:
  "pty_spawn os fk file argv envp wd ts ws p =
     (if fk_pid fk = - 1 then
        Returned \<lparr>master_fd = - 1, pid = - 1, error = errno (after_fork os fk ts ws p)\<rparr>
          (after_fork os fk ts ws p)
      else if fk_pid fk = 0 then
        spawn_child os file argv envp wd (after_fork os fk ts ws p)
      else
        Returned \<lparr>master_fd = (case fk_master fk of None \<Rightarrow> - 1 | Some m \<Rightarrow> m),
                  pid = fk_pid fk, error = 0\<rparr>
          (after_fork os fk ts ws p))"
  by (simp add: pty_spawn_def after_fork_def term_ptr_def ws_ptr_def forkpty_def Let_def
      split: prod.splits)

lemma child_chdir_cases:
  "child_chdir os wd p =
     (case wd of
        None \<Rightarrow> (0, p)
      | Some d \<Rightarrow>
          if d = [] then (0, p)
          else (case chdir_answer os (cwd p) d of
                  Inl e \<Rightarrow> (- 1, p\<lparr>calls := calls p @ [Chdir d], errno := e\<rparr>)
                | Inr d' \<Rightarrow> (0, p\<lparr>calls := calls p @ [Chdir d], cwd := d'\<rparr>)))"
  by (simp add: child_chdir_def chdir_def logcall_def Let_def split: option.splits sum.splits)

lemma child_exec_cases:
  "child_exec os file argv p =
     (case execvp_answer os file argv (environ p) (cwd p) of
        None \<Rightarrow> Replaced file argv (p\<lparr>calls := calls p @ [Execvp file argv]\<rparr>)
      | Some e \<Rightarrow> Exited e (p\<lparr>calls := calls p @ [Execvp file argv, Exit e], errno := e\<rparr>))"
  by (simp add: child_exec_def execvp_def exit_errno_def logcall_def Let_def split: option.splits)

lemma spawn_child_cases:
  "spawn_child os file argv envp wd p =
     (if fst (child_chdir os wd p) = - 1 then exit_errno (snd (child_chdir os wd p))
      else child_exec os file argv (child_envp envp (child_term (snd (child_chdir os wd p)))))"
  by (simp add: spawn_child_def split: prod.splits)

lemma pty_spawn_child:
  "fk_pid fk = 0 \<Longrightarrow>
   pty_spawn os fk file argv envp wd ts ws p =
     (if fst (child_chdir os wd (after_fork os fk ts ws p)) = - 1
      then exit_errno (snd (child_chdir os wd (after_fork os fk ts ws p)))
      else child_exec os file argv (before_exec os fk envp wd ts ws p))"
  by (simp add: pty_spawn_paths spawn_child_cases before_exec_def before_overrides_def)

subsection \<open>The blocks of the child\<close>

lemma child_chdir_errno:
  "fst (child_chdir os wd q) = - 1 \<longleftrightarrow> chdir_errno os wd (cwd q) \<noteq> None"
  by (simp add: child_chdir_cases chdir_errno_def split: option.splits sum.splits)

lemma child_chdir_fail:
  "chdir_errno os wd (cwd q) = Some e \<Longrightarrow>
   snd (child_chdir os wd q) = q\<lparr>calls := calls q @ chdir_calls wd, errno := e\<rparr>"
  by (auto simp add: child_chdir_cases chdir_errno_def chdir_calls_def split: option.splits sum.splits if_splits)

lemma child_chdir_simps:
  "environ (snd (child_chdir os wd q)) = environ q"
  "fds (snd (child_chdir os wd q)) = fds q"
  "calls (snd (child_chdir os wd q)) = calls q @ chdir_calls wd"
  by (simp_all add: child_chdir_cases chdir_calls_def split: option.splits sum.splits)

lemma child_term_simps:
  "environ (child_term q) =
     (if environ q ''TERM'' = None then (environ q)(''TERM'' \<mapsto> ''xterm-256color'') else environ q)"
  "cwd (child_term q) = cwd q"
  "fds (child_term q) = fds q"
  "calls (child_term q) = calls q @ term_calls (environ q)"
  by (simp_all add: child_term_def getenv_def setenv_def logcall_def term_calls_def Let_def)

lemma child_envp_foldl:
  "child_envp envp q = (case envp of None \<Rightarrow> q | Some es \<Rightarrow> foldl (\<lambda>s e. override_spec e s) q es)"
  by (simp add: child_envp_def envp_loop_foldl envp_entry_spec[abs_def] split: option.splits)

lemma child_envp_simps:
  "cwd (child_envp envp q) = cwd q"
  "calls (child_envp envp q) = calls q @ envp_calls envp"
proof -
  have "cwd (foldl (\<lambda>s e. override_spec e s) q es) = cwd q" for es
    by (induction es arbitrary: q) (simp_all add: cwd_override_spec)
  then show "cwd (child_envp envp q) = cwd q"
    by (simp add: child_envp_foldl split: option.splits)
  show "calls (child_envp envp q) = calls q @ envp_calls envp"
    by (simp add: child_envp_foldl envp_calls_def calls_foldl_override split: option.splits)
qed

lemma calls_before_overrides:
  "calls (before_overrides os fk wd ts ws p) =
     calls p @ [Forkpty (term_ptr os ts) (ws_ptr ws)] @ chdir_calls wd @ term_calls (environ p)"
  by (simp add: before_overrides_def child_term_simps child_chdir_simps after_fork_simps)

lemma calls_before_exec:
  "calls (before_exec os fk envp wd ts ws p) =
     calls p @ [Forkpty (term_ptr os ts) (ws_ptr ws)] @ chdir_calls wd @ term_calls (environ p)
       @ envp_calls envp"
  by (simp add: before_exec_def child_envp_simps calls_before_overrides)

lemma environ_before_overrides:
  "environ (before_overrides os fk wd ts ws p) =
     (if environ p ''TERM'' = None then (environ p)(''TERM'' \<mapsto> ''xterm-256color'') else environ p)"
  by (simp add: before_overrides_def child_term_simps child_chdir_simps after_fork_simps)

lemma pty_spawn_child_cases:
  assumes "fk_pid fk = 0"
  shows "pty_spawn os fk file argv envp wd ts ws p =
     (case chdir_errno os wd (cwd p) of
        Some e \<Rightarrow>
          Exited e ((after_fork os fk ts ws p)
            \<lparr>calls := calls p @ [Forkpty (term_ptr os ts) (ws_ptr ws)] @ chdir_calls wd @ [Exit e],
             errno := e\<rparr>)
      | None \<Rightarrow>
          (case execvp_answer os file argv (environ (before_exec os fk envp wd ts ws p))
                  (cwd (before_exec os fk envp wd ts ws p)) of
             None \<Rightarrow>
               Replaced file argv ((before_exec os fk envp wd ts ws p)
                 \<lparr>calls := calls (before_exec os fk envp wd ts ws p) @ [Execvp file argv]\<rparr>)
           | Some e \<Rightarrow>
               Exited e ((before_exec os fk envp wd ts ws p)
                 \<lparr>calls := calls (before_exec os fk envp wd ts ws p) @ [Execvp file argv, Exit e],
                  errno := e\<rparr>)))"
proof (cases "chdir_errno os wd (cwd p)")
  case None
  then have "fst (child_chdir os wd (after_fork os fk ts ws p)) \<noteq> - 1"
    by (simp add: child_chdir_errno after_fork_simps)
  with None assms show ?thesis
    by (simp add: pty_spawn_child child_exec_cases)
next
  case (Some e)
  then have f: "fst (child_chdir os wd (after_fork os fk ts ws p)) = - 1"
    by (simp add: child_chdir_errno after_fork_simps)
  from Some have "snd (child_chdir os wd (after_fork os fk ts ws p)) =
      (after_fork os fk ts ws p)\<lparr>calls := calls (after_fork os fk ts ws p) @ chdir_calls wd, errno := e\<rparr>"
    by (intro child_chdir_fail) (simp add: after_fork_simps)
  with Some f assms show ?thesis
    by (simp add: pty_spawn_child exit_errno_def logcall_def after_fork_simps)
qed

subsection \<open>Logs without execvp\<close>

lemma settled_no_execvp:
  "\<forall>c\<in>set xs. \<not> is_execvp c \<Longrightarrow> settled_before_exec (xs @ ys) = settled_before_exec ys"
proof (induction xs)
  case Nil
  then show ?case by simp
next
  case (Cons c xs)
  then show ?case by (cases c) simp_all
qed

lemma override_call_no_execvp: "c \<in> set (override_call e) \<Longrightarrow> \<not> is_execvp c"
  by (auto simp add: override_call_def split: option.splits if_splits)

lemma config_calls_no_execvp:
  "\<forall>c\<in>set (chdir_calls wd @ term_calls env @ envp_calls envp). \<not> is_execvp c"
  by (auto simp add: chdir_calls_def term_calls_def envp_calls_def
      split: option.splits if_splits dest: override_call_no_execvp)

subsection \<open>Reaching the new image, and entries that are skipped\<close>

lemma replaced_state:
  assumes "pty_spawn os fk file argv envp wd ts ws p = Replaced f a q"
  shows "fk_pid fk = 0"
    and "q = logcall (Execvp file argv) (before_exec os fk envp wd ts ws p)"
proof -
  show c: "fk_pid fk = 0"
    using assms by (simp add: pty_spawn_paths split: if_splits)
  from assms show "q = logcall (Execvp file argv) (before_exec os fk envp wd ts ws p)"
    by (auto simp add: pty_spawn_child_cases [OF c] logcall_def split: option.splits)
qed

lemma key_of_FOO: "key_of ''FOO=bar'' = Some ''FOO''" "value_of ''FOO=bar'' = ''bar''"
  "key_of ''FOO='' = Some ''FOO''" "value_of ''FOO='' = []"
  by (simp_all add: key_of_def value_of_def)

lemma envp_entry_skip: "strchr e CHR ''='' = None \<Longrightarrow> envp_entry e s = s"
  by (simp add: envp_entry_def)

lemma envp_loop_skip:
  "strchr e CHR ''='' = None \<Longrightarrow> envp_loop (pre @ e # post) 0 s = envp_loop (pre @ post) 0 s"
  by (simp add: envp_loop_foldl envp_entry_skip)

lemma child_envp_skip:
  "strchr e CHR ''='' = None \<Longrightarrow>
   child_envp (Some (pre @ e # post)) s = child_envp (Some (pre @ post)) s"
  by (simp add: child_envp_def envp_loop_skip)

lemma key_of_TERM: "key_of ''TERM=linux'' = Some ''TERM''" "value_of ''TERM=linux'' = ''linux''"
  by (simp_all add: key_of_def value_of_def)

subsection \<open>The translation of the terminal attributes\<close>

lemma spawn_termios_copied:
  fixes os :: "('f::len, 's::len) sys"
  shows "spawn_termios os ts =
     cfsetospeed os (cfsetispeed os (termios_copy_spec (NCCS os) ts) (ucast (c_ispeed ts)))
       (ucast (c_ospeed ts))"
proof -
  have "min (NCCS os) 32 = (if 32 < NCCS os then 32 else NCCS os)" by simp
  then show ?thesis
    by (simp add: spawn_termios_def termios_copy_spec_def zero_termios_def memcpy_def Let_def
        min.commute)
qed

lemma termios_copy_spec_zero:
  "(termios_copy_spec n ts :: ('f::len, 's::len) termios) =
     (zero_termios n)
       \<lparr>tio_iflag := ucast (c_iflag ts), tio_oflag := ucast (c_oflag ts),
        tio_cflag := ucast (c_cflag ts), tio_lflag := ucast (c_lflag ts),
        tio_cc := memcpy (tio_cc (zero_termios n :: ('f, 's) termios)) (c_cc ts) (min 32 n)\<rparr>"
  by (simp add: termios_copy_spec_def zero_termios_def memcpy_def)

lemma unat_ucast_32: "32 \<le> LENGTH('f::len) \<Longrightarrow> unat (ucast (w :: 32 word) :: 'f word) = unat w"
proof -
  assume "32 \<le> LENGTH('f)"
  then have "is_up (ucast :: 32 word \<Rightarrow> 'f word)"
    by (simp add: is_up)
  then have "uint (ucast w :: 'f word) = uint w"
    by (rule uint_up_ucast)
  then show ?thesis
    by (metis unat_eq_nat_uint)
qed

lemma copied_cc:
  assumes "pty_termios_ok ts"
  shows "length (tio_cc (termios_copy_spec n ts)) = n"
    and "k < min 32 n \<Longrightarrow> tio_cc (termios_copy_spec n ts) ! k = c_cc ts ! k"
    and "min 32 n \<le> k \<Longrightarrow> k < n \<Longrightarrow> tio_cc (termios_copy_spec n ts) ! k = 0"
  using assms by (auto simp add: termios_copy_spec_def pty_termios_ok_def nth_append)

lemma first_call_forkpty:
  "take (Suc (length (calls p))) (calls (final_proc (pty_spawn os fk file argv envp wd ts ws p))) =
     calls p @ [Forkpty (term_ptr os ts) (ws_ptr ws)]"
proof (cases "fk_pid fk = 0")
  case True
  then show ?thesis
    by (simp add: pty_spawn_child_cases calls_before_exec split: option.splits)
next
  case False
  then show ?thesis by (simp add: pty_spawn_paths after_fork_simps)
qed

lemma spawn_termios_other_members:
  fixes os :: "('f::len, 's::len) sys"
  assumes "keeps_other_members (cfsetispeed os)" "keeps_other_members (cfsetospeed os)"
  shows "tio_line (spawn_termios os ts) = tio_line (termios_copy_spec (NCCS os) ts :: ('f::len, 's::len) termios)"
    and "tio_cc (spawn_termios os ts) = tio_cc (termios_copy_spec (NCCS os) ts :: ('f, 's) termios)"
  using assms by (simp_all add: spawn_termios_copied keeps_other_members_def)

subsection \<open>The example platform\<close>

lemma ex_replaced:
  "pty_spawn ex_sys ex_child ''/bin/sh'' argv envp None ts ws ex_proc =
     Replaced ''/bin/sh'' argv (final_proc (pty_spawn ex_sys ex_child ''/bin/sh'' argv envp None ts ws ex_proc))"
proof -
  have c: "fk_pid ex_child = 0" by (simp add: ex_child_def)
  show ?thesis
    by (simp add: pty_spawn_child_cases [OF c] chdir_errno_def ex_sys_def)
qed

lemma ex_termios_ok: "pty_termios_ok ex_termios"
  by (simp add: pty_termios_ok_def ex_termios_def)

section \<open>The claims\<close>

text \<open>
  C1. Whenever \<open>pty_spawn\<close> returns, the result is never a partial success. Under the
  contract of \<^verbatim>\<open>forkpty\<close> (\<open>forkpty_posix\<close>): when \<^verbatim>\<open>forkpty\<close> fails, the result
  has \<open>master_fd = -1\<close>, \<open>pid = -1\<close> and \<open>error\<close> equal to the \<^verbatim>\<open>errno\<close> that
  \<^verbatim>\<open>forkpty\<close> left, which is not zero; otherwise the call returns in the parent with
  the child's pid, which is positive, the master descriptor, which is not negative, and
  \<open>error = 0\<close>. The child never returns, so every returned result is one of the two.
\<close>

theorem pty_spawn_result_never_partial:
  assumes "forkpty_posix fk"
      and "pty_spawn os fk file argv envp wd ts ws p = Returned r p'"
  shows "((pid r \<ge> 0 \<and> master_fd r \<ge> 0 \<and> error r = 0) \<or>
          (pid r = - 1 \<and> master_fd r = - 1 \<and> error r \<noteq> 0))
       \<and> (fk_pid fk = - 1 \<longrightarrow>
            master_fd r = - 1 \<and> pid r = - 1 \<and> fk_errno fk = Some (error r) \<and>
            error r = errno p' \<and> error r \<noteq> 0)
       \<and> (fk_pid fk \<noteq> - 1 \<longrightarrow>
            pid r = fk_pid fk \<and> 0 < pid r \<and> fk_master fk = Some (master_fd r) \<and>
            0 \<le> master_fd r \<and> error r = 0)"
proof -
  have nochild: "fk_pid fk \<noteq> 0"
  proof
    assume "fk_pid fk = 0"
    with assms(2) show False
      by (simp add: pty_spawn_paths spawn_child_cases child_exec_cases exit_errno_def
          split: if_splits option.splits)
  qed
  show ?thesis
  proof (cases "fk_pid fk = - 1")
    case True
    with assms show ?thesis
      by (auto simp add: pty_spawn_paths forkpty_posix_def after_fork_simps split: option.splits)
  next
    case False
    with nochild assms show ?thesis
      by (auto simp add: pty_spawn_paths forkpty_posix_def after_fork_simps split: option.splits)
  qed
qed

text \<open>A successful fork seen from the parent, and a fork that fails with
  \<^verbatim>\<open>ENOMEM\<close> (12).\<close>

theorem pty_spawn_result_never_partial_witness:
  "forkpty_posix ex_parent
   \<and> pty_spawn ex_sys ex_parent ''/bin/sh'' [''sh''] None None None None ex_proc =
       Returned \<lparr>master_fd = 5, pid = 4242, error = 0\<rparr> (after_fork ex_sys ex_parent None None ex_proc)
   \<and> forkpty_posix ex_failed
   \<and> pty_spawn ex_sys ex_failed ''/bin/sh'' [''sh''] None None None None ex_proc =
       Returned \<lparr>master_fd = - 1, pid = - 1, error = 12\<rparr> (after_fork ex_sys ex_failed None None ex_proc)
   \<and> fk_errno ex_failed = Some 12"
proof -
  have p1: "forkpty_posix ex_parent" and p2: "forkpty_posix ex_failed"
    by (simp_all add: forkpty_posix_def ex_parent_def ex_failed_def)
  have r1: "pty_spawn ex_sys ex_parent ''/bin/sh'' [''sh''] None None None None ex_proc =
       Returned \<lparr>master_fd = 5, pid = 4242, error = 0\<rparr> (after_fork ex_sys ex_parent None None ex_proc)"
    by (simp add: pty_spawn_paths ex_parent_def)
  have r2: "pty_spawn ex_sys ex_failed ''/bin/sh'' [''sh''] None None None None ex_proc =
       Returned \<lparr>master_fd = - 1, pid = - 1, error = 12\<rparr> (after_fork ex_sys ex_failed None None ex_proc)"
    by (simp add: pty_spawn_paths after_fork_simps ex_failed_def)
  from pty_spawn_result_never_partial [OF p1 r1] pty_spawn_result_never_partial [OF p2 r2] p1 p2 r1 r2 show ?thesis
    by (simp add: ex_failed_def)
qed

text \<open>
  C2. In the child (\<^verbatim>\<open>forkpty\<close> returned 0) the function never returns to its caller.
  If a working directory is given, is not empty, and \<^verbatim>\<open>chdir\<close> fails with
  \<^verbatim>\<open>errno = e\<close>, the child ends in \<^verbatim>\<open>_exit(e)\<close> right after the \<^verbatim>\<open>chdir\<close>. If
  \<^verbatim>\<open>chdir\<close> does not fail and \<^verbatim>\<open>execvp\<close> fails with \<^verbatim>\<open>errno = e\<close>, the child
  ends in \<^verbatim>\<open>_exit(e)\<close> right after the \<^verbatim>\<open>execvp\<close>. Conversely every exit of the
  child carries the \<^verbatim>\<open>errno\<close> of one of these two calls. (The results of
  \<^verbatim>\<open>setenv\<close> and \<^verbatim>\<open>unsetenv\<close> are not looked at; they are no part of this
  statement.)
\<close>

theorem child_failure_exits_with_errno:
  assumes "fk_pid fk = 0"
  shows "(\<forall>r q. pty_spawn os fk file argv envp wd ts ws p \<noteq> Returned r q)
    \<and> (\<forall>d e. wd = Some d \<and> d \<noteq> [] \<and> chdir_answer os (cwd p) d = Inl e \<longrightarrow>
          pty_spawn os fk file argv envp wd ts ws p =
            Exited e ((after_fork os fk ts ws p)
              \<lparr>calls := calls p @ [Forkpty (term_ptr os ts) (ws_ptr ws), Chdir d, Exit e],
               errno := e\<rparr>))
    \<and> (\<forall>e. chdir_errno os wd (cwd p) = None \<and>
            execvp_answer os file argv (environ (before_exec os fk envp wd ts ws p))
              (cwd (before_exec os fk envp wd ts ws p)) = Some e \<longrightarrow>
          pty_spawn os fk file argv envp wd ts ws p =
            Exited e ((before_exec os fk envp wd ts ws p)
              \<lparr>calls := calls (before_exec os fk envp wd ts ws p) @ [Execvp file argv, Exit e],
               errno := e\<rparr>))
    \<and> (\<forall>e q. pty_spawn os fk file argv envp wd ts ws p = Exited e q \<longrightarrow>
          e = errno q \<and> last (calls q) = Exit e \<and>
          (chdir_errno os wd (cwd p) = Some e \<or>
           execvp_answer os file argv (environ (before_exec os fk envp wd ts ws p))
              (cwd (before_exec os fk envp wd ts ws p)) = Some e))"
  using assms
  by (auto simp add: pty_spawn_child_cases chdir_errno_def chdir_calls_def split: option.splits sum.splits)

text \<open>The directory \<^verbatim>\<open>/nowhere\<close> does not exist (exit status 2); the program
  \<^verbatim>\<open>/bin/nope\<close> cannot be executed (exit status 13).\<close>

theorem child_failure_exits_with_errno_witness:
  "fk_pid ex_child = 0
   \<and> chdir_answer ex_sys (cwd ex_proc) ''/nowhere'' = Inl 2
   \<and> pty_spawn ex_sys ex_child ''/bin/sh'' [''sh''] None (Some ''/nowhere'') None None ex_proc =
       Exited 2 ((after_fork ex_sys ex_child None None ex_proc)
         \<lparr>calls := calls ex_proc @ [Forkpty (term_ptr ex_sys None) (ws_ptr None), Chdir ''/nowhere'', Exit 2],
          errno := 2\<rparr>)
   \<and> chdir_errno ex_sys None (cwd ex_proc) = None
   \<and> execvp_answer ex_sys ''/bin/nope'' [''nope'']
        (environ (before_exec ex_sys ex_child None None None None ex_proc))
        (cwd (before_exec ex_sys ex_child None None None None ex_proc)) = Some 13
   \<and> pty_spawn ex_sys ex_child ''/bin/nope'' [''nope''] None None None None ex_proc =
       Exited 13 ((before_exec ex_sys ex_child None None None None ex_proc)
         \<lparr>calls := calls (before_exec ex_sys ex_child None None None None ex_proc) @
                     [Execvp ''/bin/nope'' [''nope''], Exit 13],
          errno := 13\<rparr>)"
proof -
  have c: "fk_pid ex_child = 0" by (simp add: ex_child_def)
  have a: "chdir_answer ex_sys (cwd ex_proc) ''/nowhere'' = Inl 2" by (simp add: ex_sys_def)
  have n: "chdir_errno ex_sys None (cwd ex_proc) = None" by (simp add: chdir_errno_def)
  have x: "execvp_answer ex_sys ''/bin/nope'' [''nope'']
        (environ (before_exec ex_sys ex_child None None None None ex_proc))
        (cwd (before_exec ex_sys ex_child None None None None ex_proc)) = Some 13"
    by (simp add: ex_sys_def)
  from child_failure_exits_with_errno [OF c, of ex_sys "''/bin/sh''" "[''sh'']" None "Some ''/nowhere''" None None ex_proc] a
  have 1: "pty_spawn ex_sys ex_child ''/bin/sh'' [''sh''] None (Some ''/nowhere'') None None ex_proc =
       Exited 2 ((after_fork ex_sys ex_child None None ex_proc)
         \<lparr>calls := calls ex_proc @ [Forkpty (term_ptr ex_sys None) (ws_ptr None), Chdir ''/nowhere'', Exit 2],
          errno := 2\<rparr>)"
    by simp
  from child_failure_exits_with_errno [OF c, of ex_sys "''/bin/nope''" "[''nope'']" None None None None ex_proc] n x
  have 2: "pty_spawn ex_sys ex_child ''/bin/nope'' [''nope''] None None None None ex_proc =
       Exited 13 ((before_exec ex_sys ex_child None None None None ex_proc)
         \<lparr>calls := calls (before_exec ex_sys ex_child None None None None ex_proc) @
                     [Execvp ''/bin/nope'' [''nope''], Exit 13],
          errno := 13\<rparr>)"
    by blast
  from c a n x 1 2 show ?thesis by blast
qed

text \<open>
  C3. When \<open>envp\<close> is not null and the child reaches the new image, the state it
  hands over is the state before the overrides with the entries applied in the order of
  the list: the source's loop equals the left fold of \<open>override_spec\<close>, which splits an
  entry on its first \<^verbatim>\<open>=\<close>, calls \<^verbatim>\<open>unsetenv(key)\<close> when the value is empty and
  \<^verbatim>\<open>setenv(key, value, 1)\<close> otherwise, and the logged calls are exactly these, in
  order. For a key that is not empty the call removes the key from the environment, or
  sets it to the value whatever it was before (libc refuses the empty name, so an entry
  that begins with \<^verbatim>\<open>=\<close> leaves the environment as it is). Among several entries
  with one key the last one decides: the key ends up as if only that entry had been
  applied. After \<^verbatim>\<open>["FOO=bar", "FOO="]\<close> the environment has no \<^verbatim>\<open>FOO\<close>.
\<close>

theorem envp_overrides_in_order:
  assumes "pty_spawn os fk file argv (Some envp) wd ts ws p = Replaced f a q"
  shows "q = logcall (Execvp file argv)
               (foldl (\<lambda>s e. override_spec e s) (before_overrides os fk wd ts ws p) envp)
    \<and> envp_loop envp 0 (before_overrides os fk wd ts ws p) =
        foldl (\<lambda>s e. override_spec e s) (before_overrides os fk wd ts ws p) envp
    \<and> calls q = calls (before_overrides os fk wd ts ws p) @ concat (map override_call envp)
                  @ [Execvp file argv]
    \<and> (\<forall>e k s. key_of e = Some k \<and> k \<noteq> [] \<longrightarrow>
          environ (override_spec e (s :: ('a, 'b) termios proc)) =
            (if value_of e = [] then (environ s)(k := None) else (environ s)(k \<mapsto> value_of e)))
    \<and> (\<forall>pre e post k. envp = pre @ e # post \<and> key_of e = Some k \<and>
          (\<forall>e'\<in>set post. key_of e' \<noteq> Some k) \<longrightarrow>
          environ q k = environ (override_spec e (before_overrides os fk wd ts ws p)) k)
    \<and> (envp = [''FOO=bar'', ''FOO=''] \<longrightarrow> environ q ''FOO'' = None)"
proof -
  let ?b = "before_overrides os fk wd ts ws p"
  let ?fold = "foldl (\<lambda>s e. override_spec e s) ?b envp"
  have q: "q = logcall (Execvp file argv) ?fold"
    using replaced_state(2) [OF assms] by (simp add: before_exec_def child_envp_foldl)
  have loop: "envp_loop envp 0 ?b = ?fold"
    by (simp add: envp_loop_foldl envp_entry_spec [abs_def])
  have c: "calls q = calls ?b @ concat (map override_call envp) @ [Execvp file argv]"
    by (simp add: q logcall_def calls_foldl_override)
  have eff: "\<forall>e k s. key_of e = Some k \<and> k \<noteq> [] \<longrightarrow>
          environ (override_spec e (s :: ('a, 'b) termios proc)) =
            (if value_of e = [] then (environ s)(k := None) else (environ s)(k \<mapsto> value_of e))"
    by (simp add: environ_override_spec)
  have env_q: "environ q = environ ?fold"
    by (simp add: q logcall_def)
  have wins: "\<forall>pre e post k. envp = pre @ e # post \<and> key_of e = Some k \<and>
          (\<forall>e'\<in>set post. key_of e' \<noteq> Some k) \<longrightarrow>
          environ q k = environ (override_spec e ?b) k"
    by (auto simp add: env_q later_entry_wins simp del: foldl_append foldl_Cons)
  have foo: "envp = [''FOO=bar'', ''FOO=''] \<longrightarrow> environ q ''FOO'' = None"
    by (simp add: env_q environ_override_spec key_of_FOO)
  from q loop c eff wins foo show ?thesis by blast
qed

text \<open>The child of the example process, spawned with \<^verbatim>\<open>["FOO=bar", "FOO="]\<close>.\<close>

theorem envp_overrides_in_order_witness:
  "pty_spawn ex_sys ex_child ''/bin/sh'' [''sh''] (Some [''FOO=bar'', ''FOO='']) None None None ex_proc =
     Replaced ''/bin/sh'' [''sh'']
       (final_proc (pty_spawn ex_sys ex_child ''/bin/sh'' [''sh''] (Some [''FOO=bar'', ''FOO='']) None None None ex_proc))
   \<and> environ (final_proc (pty_spawn ex_sys ex_child ''/bin/sh'' [''sh''] (Some [''FOO=bar'', ''FOO='']) None None None ex_proc))
        ''FOO'' = None
   \<and> calls (final_proc (pty_spawn ex_sys ex_child ''/bin/sh'' [''sh''] (Some [''FOO=bar'', ''FOO='']) None None None ex_proc)) =
       [Forkpty None None, Getenv ''TERM'', Setenv ''TERM'' ''xterm-256color'' False,
        Setenv ''FOO'' ''bar'' True, Unsetenv ''FOO'', Execvp ''/bin/sh'' [''sh'']]
   \<and> key_of ''FOO=bar'' = Some ''FOO'' \<and> ''FOO'' \<noteq> []
   \<and> environ (override_spec ''FOO=bar'' ex_proc) = (environ ex_proc)(''FOO'' \<mapsto> ''bar'')
   \<and> [''FOO=bar'', ''FOO=''] = [''FOO=bar''] @ ''FOO='' # [] \<and> key_of ''FOO='' = Some ''FOO''
   \<and> environ (final_proc (pty_spawn ex_sys ex_child ''/bin/sh'' [''sh''] (Some [''FOO=bar'', ''FOO='']) None None None ex_proc))
        ''FOO'' =
       environ (override_spec ''FOO='' (before_overrides ex_sys ex_child None None None ex_proc)) ''FOO''"
proof -
  let ?q = "final_proc (pty_spawn ex_sys ex_child ''/bin/sh'' [''sh''] (Some [''FOO=bar'', ''FOO='']) None None None ex_proc)"
  note r = ex_replaced [of "[''sh'']" "Some [''FOO=bar'', ''FOO='']" None None]
  note t = envp_overrides_in_order [OF r]
  have k: "key_of ''FOO=bar'' = Some ''FOO'' \<and> ''FOO'' \<noteq> []"
    by (simp add: key_of_FOO)
  have l: "[''FOO=bar'', ''FOO=''] = [''FOO=bar''] @ ''FOO='' # [] \<and> key_of ''FOO='' = Some ''FOO''"
    by (simp add: key_of_FOO)
  from t have foo: "environ ?q ''FOO'' = None" by blast
  from t have "calls ?q = calls (before_overrides ex_sys ex_child None None None ex_proc) @
      concat (map override_call [''FOO=bar'', ''FOO='']) @ [Execvp ''/bin/sh'' [''sh'']]"
    by blast
  then have c: "calls ?q = [Forkpty None None, Getenv ''TERM'', Setenv ''TERM'' ''xterm-256color'' False,
        Setenv ''FOO'' ''bar'' True, Unsetenv ''FOO'', Execvp ''/bin/sh'' [''sh'']]"
    by (simp add: calls_before_overrides term_ptr_def ws_ptr_def chdir_calls_def term_calls_def
        override_call_def key_of_FOO ex_proc_def)
  from t k have "environ (override_spec ''FOO=bar'' ex_proc) =
      (if value_of ''FOO=bar'' = [] then (environ ex_proc)(''FOO'' := None)
       else (environ ex_proc)(''FOO'' \<mapsto> value_of ''FOO=bar''))"
    by blast
  then have e: "environ (override_spec ''FOO=bar'' ex_proc) = (environ ex_proc)(''FOO'' \<mapsto> ''bar'')"
    by (simp add: key_of_FOO)
  from t have "[''FOO=bar'', ''FOO=''] = [''FOO=bar''] @ ''FOO='' # [] \<and> key_of ''FOO='' = Some ''FOO'' \<and>
          (\<forall>e'\<in>set []. key_of e' \<noteq> Some ''FOO'') \<longrightarrow>
          environ ?q ''FOO'' =
            environ (override_spec ''FOO='' (before_overrides ex_sys ex_child None None None ex_proc)) ''FOO''"
    by blast
  with l have w: "environ ?q ''FOO'' =
            environ (override_spec ''FOO='' (before_overrides ex_sys ex_child None None None ex_proc)) ''FOO''"
    by simp
  from r foo c k e l w show ?thesis by blast
qed

text \<open>
  C4. In a child that reaches the new image: before the overrides the environment is
  the inherited one, with \<^verbatim>\<open>TERM\<close> set to \<^verbatim>\<open>xterm-256color\<close> only if it had no
  \<^verbatim>\<open>TERM\<close> (an existing value stays); the calls of the default step
  (\<^verbatim>\<open>getenv\<close>, and \<^verbatim>\<open>setenv\<close> without overwrite when it is made) come before
  the calls of the overrides; with the override list \<^verbatim>\<open>["TERM=linux"]\<close> the new
  image sees \<^verbatim>\<open>TERM=linux\<close>; with no override list, or a list without an entry for
  \<^verbatim>\<open>TERM\<close>, and no inherited \<^verbatim>\<open>TERM\<close>, it sees the default; with no override
  list and an inherited \<^verbatim>\<open>TERM\<close> it sees the inherited value.
\<close>

theorem term_default_before_overrides:
  assumes "pty_spawn os fk file argv envp wd ts ws p = Replaced f a q"
  shows "environ (before_overrides os fk wd ts ws p) =
           (if environ p ''TERM'' = None then (environ p)(''TERM'' \<mapsto> ''xterm-256color'')
            else environ p)
    \<and> calls q = calls p @ [Forkpty (term_ptr os ts) (ws_ptr ws)] @ chdir_calls wd @
                 term_calls (environ p) @ envp_calls envp @ [Execvp file argv]
    \<and> environ q = environ (child_envp envp (before_overrides os fk wd ts ws p))
    \<and> (envp = Some [''TERM=linux''] \<longrightarrow> environ q ''TERM'' = Some ''linux'')
    \<and> (envp = None \<and> environ p ''TERM'' = None \<longrightarrow> environ q ''TERM'' = Some ''xterm-256color'')
    \<and> (\<forall>es. envp = Some es \<and> (\<forall>e\<in>set es. key_of e \<noteq> Some ''TERM'') \<and> environ p ''TERM'' = None \<longrightarrow>
          environ q ''TERM'' = Some ''xterm-256color'')
    \<and> (\<forall>v. envp = None \<and> environ p ''TERM'' = Some v \<longrightarrow> environ q ''TERM'' = Some v)"
proof -
  let ?b = "before_overrides os fk wd ts ws p"
  note q = replaced_state(2) [OF assms]
  have dflt: "environ ?b =
           (if environ p ''TERM'' = None then (environ p)(''TERM'' \<mapsto> ''xterm-256color'')
            else environ p)"
    by (rule environ_before_overrides)
  have c: "calls q = calls p @ [Forkpty (term_ptr os ts) (ws_ptr ws)] @ chdir_calls wd @
                 term_calls (environ p) @ envp_calls envp @ [Execvp file argv]"
    by (simp add: q logcall_def calls_before_exec)
  have env_q: "environ q = environ (child_envp envp ?b)"
    by (simp add: q logcall_def before_exec_def)
  have linux: "envp = Some [''TERM=linux''] \<longrightarrow> environ q ''TERM'' = Some ''linux''"
    by (simp add: env_q child_envp_foldl environ_override_spec key_of_TERM)
  have none: "envp = None \<and> environ p ''TERM'' = None \<longrightarrow> environ q ''TERM'' = Some ''xterm-256color''"
    by (simp add: env_q child_envp_foldl dflt)
  have other: "\<forall>es. envp = Some es \<and> (\<forall>e\<in>set es. key_of e \<noteq> Some ''TERM'') \<and> environ p ''TERM'' = None \<longrightarrow>
          environ q ''TERM'' = Some ''xterm-256color''"
    by (simp add: env_q child_envp_foldl environ_foldl_other dflt)
  have keep: "\<forall>v. envp = None \<and> environ p ''TERM'' = Some v \<longrightarrow> environ q ''TERM'' = Some v"
    by (simp add: env_q child_envp_foldl dflt)
  from dflt c env_q linux none other keep show ?thesis by blast
qed

text \<open>The example process has no \<^verbatim>\<open>TERM\<close>; a second one inherits \<^verbatim>\<open>vt100\<close>.\<close>

theorem term_default_before_overrides_witness:
  "pty_spawn ex_sys ex_child ''/bin/sh'' [''sh''] (Some [''TERM=linux'']) None None None ex_proc =
     Replaced ''/bin/sh'' [''sh'']
       (final_proc (pty_spawn ex_sys ex_child ''/bin/sh'' [''sh''] (Some [''TERM=linux'']) None None None ex_proc))
   \<and> environ (final_proc (pty_spawn ex_sys ex_child ''/bin/sh'' [''sh''] (Some [''TERM=linux'']) None None None ex_proc))
        ''TERM'' = Some ''linux''
   \<and> environ ex_proc ''TERM'' = None
   \<and> pty_spawn ex_sys ex_child ''/bin/sh'' [''sh''] None None None None ex_proc =
     Replaced ''/bin/sh'' [''sh'']
       (final_proc (pty_spawn ex_sys ex_child ''/bin/sh'' [''sh''] None None None None ex_proc))
   \<and> environ (final_proc (pty_spawn ex_sys ex_child ''/bin/sh'' [''sh''] None None None None ex_proc))
        ''TERM'' = Some ''xterm-256color''
   \<and> environ (ex_proc\<lparr>environ := [''TERM'' \<mapsto> ''vt100'']\<rparr>) ''TERM'' = Some ''vt100''
   \<and> pty_spawn ex_sys ex_child ''/bin/sh'' [''sh''] None None None None (ex_proc\<lparr>environ := [''TERM'' \<mapsto> ''vt100'']\<rparr>) =
     Replaced ''/bin/sh'' [''sh'']
       (final_proc (pty_spawn ex_sys ex_child ''/bin/sh'' [''sh''] None None None None (ex_proc\<lparr>environ := [''TERM'' \<mapsto> ''vt100'']\<rparr>)))
   \<and> environ (final_proc (pty_spawn ex_sys ex_child ''/bin/sh'' [''sh''] None None None None (ex_proc\<lparr>environ := [''TERM'' \<mapsto> ''vt100'']\<rparr>)))
        ''TERM'' = Some ''vt100''"
proof -
  note r1 = ex_replaced [of "[''sh'']" "Some [''TERM=linux'']" None None]
  note r2 = ex_replaced [of "[''sh'']" None None None]
  have c: "fk_pid ex_child = 0" by (simp add: ex_child_def)
  have r3: "pty_spawn ex_sys ex_child ''/bin/sh'' [''sh''] None None None None (ex_proc\<lparr>environ := [''TERM'' \<mapsto> ''vt100'']\<rparr>) =
     Replaced ''/bin/sh'' [''sh'']
       (final_proc (pty_spawn ex_sys ex_child ''/bin/sh'' [''sh''] None None None None (ex_proc\<lparr>environ := [''TERM'' \<mapsto> ''vt100'']\<rparr>)))"
    by (simp add: pty_spawn_child_cases [OF c] chdir_errno_def ex_sys_def)
  have n: "environ ex_proc ''TERM'' = None" by (simp add: ex_proc_def)
  have v: "environ (ex_proc\<lparr>environ := [''TERM'' \<mapsto> ''vt100'']\<rparr>) ''TERM'' = Some ''vt100''" by simp
  from term_default_before_overrides [OF r1] have 1: "environ (final_proc (pty_spawn ex_sys ex_child ''/bin/sh'' [''sh''] (Some [''TERM=linux'']) None None None ex_proc))
        ''TERM'' = Some ''linux''"
    by blast
  from term_default_before_overrides [OF r2] n have 2: "environ (final_proc (pty_spawn ex_sys ex_child ''/bin/sh'' [''sh''] None None None None ex_proc))
        ''TERM'' = Some ''xterm-256color''"
    by blast
  from term_default_before_overrides [OF r3] v have 3: "environ (final_proc (pty_spawn ex_sys ex_child ''/bin/sh'' [''sh''] None None None None (ex_proc\<lparr>environ := [''TERM'' \<mapsto> ''vt100'']\<rparr>)))
        ''TERM'' = Some ''vt100''"
    by blast
  from r1 r2 r3 n v 1 2 3 show ?thesis by blast
qed

text \<open>
  C5. When \<open>termios_settings\<close> is not null, the native structure built on lines
  101-117 is the result of \<^verbatim>\<open>cfsetispeed\<close> and then \<^verbatim>\<open>cfsetospeed\<close>, called with
  the caller's two speeds, on a structure that carries the four flag words unchanged
  (equal as numbers wherever the native flag type has at least 32 bits) and the
  caller's control characters at every index below the smaller of 32 and \<^verbatim>\<open>NCCS\<close>.
  That structure is the one handed to \<^verbatim>\<open>forkpty\<close>, which is the first call
  \<open>pty_spawn\<close> makes, hence before any \<^verbatim>\<open>execvp\<close>.
\<close>

theorem termios_translation_passed_to_forkpty:
  fixes os :: "('f::len, 's::len) sys"
  assumes "pty_termios_ok ts"
  shows "spawn_termios os ts =
           cfsetospeed os (cfsetispeed os (termios_copy_spec (NCCS os) ts) (ucast (c_ispeed ts)))
             (ucast (c_ospeed ts))
    \<and> (32 \<le> LENGTH('f) \<longrightarrow>
          unat (tio_iflag (termios_copy_spec (NCCS os) ts :: ('f::len, 's::len) termios)) = unat (c_iflag ts) \<and>
          unat (tio_oflag (termios_copy_spec (NCCS os) ts :: ('f, 's) termios)) = unat (c_oflag ts) \<and>
          unat (tio_cflag (termios_copy_spec (NCCS os) ts :: ('f, 's) termios)) = unat (c_cflag ts) \<and>
          unat (tio_lflag (termios_copy_spec (NCCS os) ts :: ('f, 's) termios)) = unat (c_lflag ts))
    \<and> length (tio_cc (termios_copy_spec (NCCS os) ts :: ('f, 's) termios)) = NCCS os
    \<and> (\<forall>k. k < min 32 (NCCS os) \<longrightarrow>
          tio_cc (termios_copy_spec (NCCS os) ts :: ('f, 's) termios) ! k = c_cc ts ! k)
    \<and> take (Suc (length (calls p)))
         (calls (final_proc (pty_spawn os fk file argv envp wd (Some ts) ws p))) =
        calls p @ [Forkpty (Some (spawn_termios os ts)) (ws_ptr ws)]"
  using assms
  by (simp add: spawn_termios_copied [symmetric] first_call_forkpty term_ptr_def copied_cc)
     (simp add: termios_copy_spec_def unat_ucast_32)

text \<open>On the example platform \<^verbatim>\<open>NCCS\<close> is 40 and the setters store the speed.\<close>

theorem termios_translation_passed_to_forkpty_witness:
  "pty_termios_ok ex_termios
   \<and> (32::nat) \<le> LENGTH(32)
   \<and> unat (tio_cflag (termios_copy_spec (NCCS ex_sys) ex_termios :: (32, 32) termios)) = 191
   \<and> length (tio_cc (termios_copy_spec (NCCS ex_sys) ex_termios :: (32, 32) termios)) = 40
   \<and> (2::nat) < min 32 (NCCS ex_sys)
   \<and> tio_cc (termios_copy_spec (NCCS ex_sys) ex_termios :: (32, 32) termios) ! 2 = 127
   \<and> spawn_termios ex_sys ex_termios =
       (termios_copy_spec 40 ex_termios)\<lparr>tio_ispeed := 15, tio_ospeed := 15\<rparr>
   \<and> take (Suc (length (calls ex_proc)))
        (calls (final_proc (pty_spawn ex_sys ex_child ''/bin/sh'' [''sh''] None None (Some ex_termios) None ex_proc))) =
       [Forkpty (Some (spawn_termios ex_sys ex_termios)) None]"
proof -
  note t = termios_translation_passed_to_forkpty [OF ex_termios_ok, of ex_sys ex_proc ex_child "''/bin/sh''" "[''sh'']" None None None]
  have l: "(32::nat) \<le> LENGTH(32)" by simp
  have k: "(2::nat) < min 32 (NCCS ex_sys)" by (simp add: ex_sys_def)
  from t l have 1: "unat (tio_cflag (termios_copy_spec (NCCS ex_sys) ex_termios :: (32, 32) termios)) = unat (c_cflag ex_termios)"
    by blast
  from t have 2: "length (tio_cc (termios_copy_spec (NCCS ex_sys) ex_termios :: (32, 32) termios)) = NCCS ex_sys"
    by blast
  from t k have 3: "tio_cc (termios_copy_spec (NCCS ex_sys) ex_termios :: (32, 32) termios) ! 2 = c_cc ex_termios ! 2"
    by blast
  from t have 4: "spawn_termios ex_sys ex_termios =
           cfsetospeed ex_sys (cfsetispeed ex_sys (termios_copy_spec (NCCS ex_sys) ex_termios) (ucast (c_ispeed ex_termios)))
             (ucast (c_ospeed ex_termios))"
    by blast
  from t have 5: "take (Suc (length (calls ex_proc)))
        (calls (final_proc (pty_spawn ex_sys ex_child ''/bin/sh'' [''sh''] None None (Some ex_termios) None ex_proc))) =
       calls ex_proc @ [Forkpty (Some (spawn_termios ex_sys ex_termios)) (ws_ptr None)]"
    by blast
  have e1: "unat (tio_cflag (termios_copy_spec (NCCS ex_sys) ex_termios :: (32, 32) termios)) = 191"
    unfolding 1 by (simp add: ex_termios_def)
  have e2: "length (tio_cc (termios_copy_spec (NCCS ex_sys) ex_termios :: (32, 32) termios)) = 40"
    unfolding 2 by (simp add: ex_sys_def)
  have e3: "tio_cc (termios_copy_spec (NCCS ex_sys) ex_termios :: (32, 32) termios) ! 2 = 127"
    unfolding 3 by (simp add: ex_termios_def)
  have e4: "spawn_termios ex_sys ex_termios = (termios_copy_spec 40 ex_termios)\<lparr>tio_ispeed := 15, tio_ospeed := 15\<rparr>"
    unfolding 4 by (simp add: ex_sys_def ex_termios_def)
  have e5: "take (Suc (length (calls ex_proc)))
        (calls (final_proc (pty_spawn ex_sys ex_child ''/bin/sh'' [''sh''] None None (Some ex_termios) None ex_proc))) =
       [Forkpty (Some (spawn_termios ex_sys ex_termios)) None]"
    unfolding 5 by (simp add: ex_proc_def ws_ptr_def)
  from ex_termios_ok l k e1 e2 e3 e4 e5 show ?thesis by blast
qed

text \<open>
  C6. In the child, the log of the calls \<open>pty_spawn\<close> makes has one shape:
  \<^verbatim>\<open>forkpty\<close> with the terminal attributes and the window size first, then the
  \<^verbatim>\<open>chdir\<close> if any, then the \<^verbatim>\<open>TERM\<close> default, then the overrides, then
  \<^verbatim>\<open>execvp\<close>, followed by nothing when it succeeds and by \<^verbatim>\<open>_exit\<close> alone when it
  fails (a failing \<^verbatim>\<open>chdir\<close> ends the log before any of this). So no call stands
  after \<^verbatim>\<open>execvp\<close> that could change what was configured, and the image that
  replaces the child starts from exactly the environment and working directory reached
  after the last configuration step.
\<close>

theorem configuration_before_execvp:
  assumes "fk_pid fk = 0"
  shows "calls (final_proc (pty_spawn os fk file argv envp wd ts ws p)) =
           calls p @ [Forkpty (term_ptr os ts) (ws_ptr ws)] @
             (case chdir_errno os wd (cwd p) of
                Some e \<Rightarrow> chdir_calls wd @ [Exit e]
              | None \<Rightarrow>
                  chdir_calls wd @ term_calls (environ p) @ envp_calls envp @ [Execvp file argv] @
                    (case execvp_answer os file argv (environ (before_exec os fk envp wd ts ws p))
                            (cwd (before_exec os fk envp wd ts ws p)) of
                       None \<Rightarrow> []
                     | Some e \<Rightarrow> [Exit e]))
    \<and> settled_before_exec (drop (length (calls p)) (calls (final_proc (pty_spawn os fk file argv envp wd ts ws p))))
    \<and> (\<forall>f a q. pty_spawn os fk file argv envp wd ts ws p = Replaced f a q \<longrightarrow>
          f = file \<and> a = argv \<and>
          calls q = calls (before_exec os fk envp wd ts ws p) @ [Execvp file argv] \<and>
          environ q = environ (before_exec os fk envp wd ts ws p) \<and>
          cwd q = cwd (before_exec os fk envp wd ts ws p))"
proof -
  let ?F = "final_proc (pty_spawn os fk file argv envp wd ts ws p)"
  let ?cfg = "chdir_calls wd @ term_calls (environ p) @ envp_calls envp :: ('a, 'b) termios syscall list"
  have shape: "calls ?F =
           calls p @ [Forkpty (term_ptr os ts) (ws_ptr ws)] @
             (case chdir_errno os wd (cwd p) of
                Some e \<Rightarrow> chdir_calls wd @ [Exit e]
              | None \<Rightarrow>
                  chdir_calls wd @ term_calls (environ p) @ envp_calls envp @ [Execvp file argv] @
                    (case execvp_answer os file argv (environ (before_exec os fk envp wd ts ws p))
                            (cwd (before_exec os fk envp wd ts ws p)) of
                       None \<Rightarrow> []
                     | Some e \<Rightarrow> [Exit e]))"
    using assms by (simp add: pty_spawn_child_cases calls_before_exec split: option.splits)
  have n1: "\<forall>c\<in>set (chdir_calls wd :: ('a, 'b) termios syscall list). \<not> is_execvp c"
    by (auto simp add: chdir_calls_def split: option.splits)
  have n2: "\<forall>c\<in>set ?cfg. \<not> is_execvp c"
    by (rule config_calls_no_execvp)
  have settled: "settled_before_exec (drop (length (calls p)) (calls ?F))"
  proof (cases "chdir_errno os wd (cwd p)")
    case (Some e)
    with shape have "drop (length (calls p)) (calls ?F) =
        Forkpty (term_ptr os ts) (ws_ptr ws) # (chdir_calls wd @ [Exit e])"
      by simp
    then show ?thesis using settled_no_execvp [OF n1, of "[Exit e]"] by simp
  next
    case None
    with shape have d: "drop (length (calls p)) (calls ?F) =
        Forkpty (term_ptr os ts) (ws_ptr ws) # (?cfg @ (Execvp file argv #
          (case execvp_answer os file argv (environ (before_exec os fk envp wd ts ws p))
                            (cwd (before_exec os fk envp wd ts ws p)) of
                       None \<Rightarrow> []
                     | Some e \<Rightarrow> [Exit e])))"
      by simp
    show ?thesis
      unfolding d using settled_no_execvp [OF n2] by (simp split: option.splits)
  qed
  have repl: "\<forall>f a q. pty_spawn os fk file argv envp wd ts ws p = Replaced f a q \<longrightarrow>
          f = file \<and> a = argv \<and>
          calls q = calls (before_exec os fk envp wd ts ws p) @ [Execvp file argv] \<and>
          environ q = environ (before_exec os fk envp wd ts ws p) \<and>
          cwd q = cwd (before_exec os fk envp wd ts ws p)"
    using assms by (auto simp add: pty_spawn_child_cases split: option.splits)
  from shape settled repl show ?thesis by blast
qed

text \<open>A child with every optional argument given, and one whose \<^verbatim>\<open>execvp\<close> fails.\<close>

theorem configuration_before_execvp_witness:
  "fk_pid ex_child = 0
   \<and> calls (final_proc (pty_spawn ex_sys ex_child ''/bin/sh'' [''sh''] (Some [''A=1'']) (Some ''/tmp'')
        (Some ex_termios) (Some ex_winsize) ex_proc)) =
       [Forkpty (Some (spawn_termios ex_sys ex_termios)) (Some (spawn_winsize ex_winsize)),
        Chdir ''/tmp'', Getenv ''TERM'', Setenv ''TERM'' ''xterm-256color'' False,
        Setenv ''A'' ''1'' True, Execvp ''/bin/sh'' [''sh'']]
   \<and> settled_before_exec
       [Forkpty (Some (spawn_termios ex_sys ex_termios)) (Some (spawn_winsize ex_winsize)),
        Chdir ''/tmp'', Getenv ''TERM'', Setenv ''TERM'' ''xterm-256color'' False,
        Setenv ''A'' ''1'' True, Execvp ''/bin/sh'' [''sh'']]
   \<and> calls (final_proc (pty_spawn ex_sys ex_child ''/bin/nope'' [''nope''] None (Some ''/tmp'')
        None None ex_proc)) =
       [Forkpty None None, Chdir ''/tmp'', Getenv ''TERM'', Setenv ''TERM'' ''xterm-256color'' False,
        Execvp ''/bin/nope'' [''nope''], Exit 13]"
proof -
  let ?F = "final_proc (pty_spawn ex_sys ex_child ''/bin/sh'' [''sh''] (Some [''A=1'']) (Some ''/tmp'')
        (Some ex_termios) (Some ex_winsize) ex_proc)"
  let ?G = "final_proc (pty_spawn ex_sys ex_child ''/bin/nope'' [''nope''] None (Some ''/tmp'')
        None None ex_proc)"
  have c: "fk_pid ex_child = 0" by (simp add: ex_child_def)
  note t = configuration_before_execvp [OF c, of ex_sys "''/bin/sh''" "[''sh'']" "Some [''A=1'']" "Some ''/tmp''"
      "Some ex_termios" "Some ex_winsize" ex_proc]
  note u = configuration_before_execvp [OF c, of ex_sys "''/bin/nope''" "[''nope'']" None "Some ''/tmp''" None None ex_proc]
  have k: "key_of ''A=1'' = Some ''A''" "value_of ''A=1'' = ''1''"
    by (simp_all add: key_of_def value_of_def)
  have p: "calls ex_proc = []" "environ ex_proc ''TERM'' = None"
    by (simp_all add: ex_proc_def)
  have e: "chdir_errno ex_sys (Some ''/tmp'') d = None" for d
    by (simp add: chdir_errno_def ex_sys_def)
  have x: "execvp_answer ex_sys ''/bin/sh'' a env d = None"
          "execvp_answer ex_sys ''/bin/nope'' a env d = Some 13" for a env d
    by (simp_all add: ex_sys_def)
  from t have "calls ?F =
      calls ex_proc @ [Forkpty (term_ptr ex_sys (Some ex_termios)) (ws_ptr (Some ex_winsize))] @
        (case chdir_errno ex_sys (Some ''/tmp'') (cwd ex_proc) of
           Some e \<Rightarrow> chdir_calls (Some ''/tmp'') @ [Exit e]
         | None \<Rightarrow>
             chdir_calls (Some ''/tmp'') @ term_calls (environ ex_proc) @ envp_calls (Some [''A=1'']) @
             [Execvp ''/bin/sh'' [''sh'']] @
               (case execvp_answer ex_sys ''/bin/sh'' [''sh'']
                       (environ (before_exec ex_sys ex_child (Some [''A=1'']) (Some ''/tmp'')
                          (Some ex_termios) (Some ex_winsize) ex_proc))
                       (cwd (before_exec ex_sys ex_child (Some [''A=1'']) (Some ''/tmp'')
                          (Some ex_termios) (Some ex_winsize) ex_proc)) of
                  None \<Rightarrow> []
                | Some e \<Rightarrow> [Exit e]))"
    by blast
  then have 1: "calls ?F =
       [Forkpty (Some (spawn_termios ex_sys ex_termios)) (Some (spawn_winsize ex_winsize)),
        Chdir ''/tmp'', Getenv ''TERM'', Setenv ''TERM'' ''xterm-256color'' False,
        Setenv ''A'' ''1'' True, Execvp ''/bin/sh'' [''sh'']]"
    by (simp add: e x p k term_ptr_def ws_ptr_def chdir_calls_def term_calls_def envp_calls_def
        override_call_def)
  from t have "settled_before_exec (drop (length (calls ex_proc)) (calls ?F))"
    by blast
  then have 2: "settled_before_exec
       [Forkpty (Some (spawn_termios ex_sys ex_termios)) (Some (spawn_winsize ex_winsize)),
        Chdir ''/tmp'', Getenv ''TERM'', Setenv ''TERM'' ''xterm-256color'' False,
        Setenv ''A'' ''1'' True, Execvp ''/bin/sh'' [''sh'']]"
    unfolding 1 by (simp add: p)
  from u have "calls ?G =
      calls ex_proc @ [Forkpty (term_ptr ex_sys None) (ws_ptr None)] @
        (case chdir_errno ex_sys (Some ''/tmp'') (cwd ex_proc) of
           Some e \<Rightarrow> chdir_calls (Some ''/tmp'') @ [Exit e]
         | None \<Rightarrow>
             chdir_calls (Some ''/tmp'') @ term_calls (environ ex_proc) @ envp_calls None @
             [Execvp ''/bin/nope'' [''nope'']] @
               (case execvp_answer ex_sys ''/bin/nope'' [''nope'']
                       (environ (before_exec ex_sys ex_child None (Some ''/tmp'') None None ex_proc))
                       (cwd (before_exec ex_sys ex_child None (Some ''/tmp'') None None ex_proc)) of
                  None \<Rightarrow> []
                | Some e \<Rightarrow> [Exit e]))"
    by blast
  then have 3: "calls ?G =
       [Forkpty None None, Chdir ''/tmp'', Getenv ''TERM'', Setenv ''TERM'' ''xterm-256color'' False,
        Execvp ''/bin/nope'' [''nope''], Exit 13]"
    by (simp add: e x p term_ptr_def ws_ptr_def chdir_calls_def term_calls_def envp_calls_def)
  from c 1 2 3 show ?thesis by blast
qed

text \<open>
  C7. When \<^verbatim>\<open>forkpty\<close> does not return 0 (the parent, or a failed fork),
  \<open>pty_spawn\<close> returns, the only call it has made is \<^verbatim>\<open>forkpty\<close> (no
  \<^verbatim>\<open>setenv\<close>, \<^verbatim>\<open>unsetenv\<close> or \<^verbatim>\<open>chdir\<close>), and the environment and the working
  directory of the process are what they were before the call.
\<close>

theorem parent_path_no_env_no_chdir:
  assumes "fk_pid fk \<noteq> 0"
  shows "pty_spawn os fk file argv envp wd ts ws p =
           Returned
             (if fk_pid fk = - 1
              then \<lparr>master_fd = - 1, pid = - 1, error = errno (after_fork os fk ts ws p)\<rparr>
              else \<lparr>master_fd = (case fk_master fk of None \<Rightarrow> - 1 | Some m \<Rightarrow> m),
                    pid = fk_pid fk, error = 0\<rparr>)
             (after_fork os fk ts ws p)
    \<and> environ (final_proc (pty_spawn os fk file argv envp wd ts ws p)) = environ p
    \<and> cwd (final_proc (pty_spawn os fk file argv envp wd ts ws p)) = cwd p
    \<and> calls (final_proc (pty_spawn os fk file argv envp wd ts ws p)) =
        calls p @ [Forkpty (term_ptr os ts) (ws_ptr ws)]"
  using assms by (simp add: pty_spawn_paths after_fork_simps)

text \<open>The parent, called with an override list and a working directory.\<close>

theorem parent_path_no_env_no_chdir_witness:
  "fk_pid ex_parent \<noteq> 0
   \<and> pty_spawn ex_sys ex_parent ''/bin/sh'' [''sh''] (Some [''FOO=bar'']) (Some ''/tmp'') None None ex_proc =
       Returned \<lparr>master_fd = 5, pid = 4242, error = 0\<rparr> (after_fork ex_sys ex_parent None None ex_proc)
   \<and> environ (final_proc (pty_spawn ex_sys ex_parent ''/bin/sh'' [''sh''] (Some [''FOO=bar'']) (Some ''/tmp'') None None ex_proc))
       = environ ex_proc
   \<and> cwd (final_proc (pty_spawn ex_sys ex_parent ''/bin/sh'' [''sh''] (Some [''FOO=bar'']) (Some ''/tmp'') None None ex_proc))
       = ''/''
   \<and> calls (final_proc (pty_spawn ex_sys ex_parent ''/bin/sh'' [''sh''] (Some [''FOO=bar'']) (Some ''/tmp'') None None ex_proc))
       = [Forkpty None None]"
proof -
  let ?S = "pty_spawn ex_sys ex_parent ''/bin/sh'' [''sh''] (Some [''FOO=bar'']) (Some ''/tmp'') None None ex_proc"
  have c: "fk_pid ex_parent \<noteq> 0" by (simp add: ex_parent_def)
  note t = parent_path_no_env_no_chdir [OF c, of ex_sys "''/bin/sh''" "[''sh'']" "Some [''FOO=bar'']"
      "Some ''/tmp''" None None ex_proc]
  from t have "?S = Returned
             (if fk_pid ex_parent = - 1
              then \<lparr>master_fd = - 1, pid = - 1, error = errno (after_fork ex_sys ex_parent None None ex_proc)\<rparr>
              else \<lparr>master_fd = (case fk_master ex_parent of None \<Rightarrow> - 1 | Some m \<Rightarrow> m),
                    pid = fk_pid ex_parent, error = 0\<rparr>)
             (after_fork ex_sys ex_parent None None ex_proc)"
    by blast
  then have 1: "?S = Returned \<lparr>master_fd = 5, pid = 4242, error = 0\<rparr> (after_fork ex_sys ex_parent None None ex_proc)"
    by (simp add: ex_parent_def)
  from t have 2: "environ (final_proc ?S) = environ ex_proc" by blast
  from t have "cwd (final_proc ?S) = cwd ex_proc" by blast
  then have 3: "cwd (final_proc ?S) = ''/''" by (simp add: ex_proc_def)
  from t have "calls (final_proc ?S) = calls ex_proc @ [Forkpty (term_ptr ex_sys None) (ws_ptr None)]"
    by blast
  then have 4: "calls (final_proc ?S) = [Forkpty None None]"
    by (simp add: ex_proc_def term_ptr_def ws_ptr_def)
  from c 1 2 3 4 show ?thesis by blast
qed

text \<open>
  C8. For every descriptor and every pair of rows and columns, \<open>pty_resize\<close> makes
  exactly one call, \<^verbatim>\<open>ioctl(fd, TIOCSWINSZ, &ws)\<close> with \<open>ws_row = rows\<close>,
  \<open>ws_col = cols\<close> and both pixel members 0, and returns the status of that call. When
  the call fails, no window size has changed; when it succeeds, the terminal behind the
  descriptor has the new size. The environment and the working directory are untouched.
\<close>

theorem pty_resize_single_ioctl:
  "pty_resize fd rows cols p =
      ioctl_TIOCSWINSZ fd \<lparr>sys_row = rows, sys_col = cols, sys_xpixel = 0, sys_ypixel = 0\<rparr> p
   \<and> calls (snd (pty_resize fd rows cols p)) =
      calls p @ [Ioctl_TIOCSWINSZ fd \<lparr>sys_row = rows, sys_col = cols, sys_xpixel = 0, sys_ypixel = 0\<rparr>]
   \<and> (fst (pty_resize fd rows cols p) = 0 \<or> fst (pty_resize fd rows cols p) = - 1)
   \<and> (fst (pty_resize fd rows cols p) = 0 \<longrightarrow>
        fds (snd (pty_resize fd rows cols p)) =
          (fds p)(fd \<mapsto> Tty \<lparr>sys_row = rows, sys_col = cols, sys_xpixel = 0, sys_ypixel = 0\<rparr>))
   \<and> (fst (pty_resize fd rows cols p) = - 1 \<longrightarrow> fds (snd (pty_resize fd rows cols p)) = fds p)
   \<and> environ (snd (pty_resize fd rows cols p)) = environ p
   \<and> cwd (snd (pty_resize fd rows cols p)) = cwd p"
  by (simp add: pty_resize_def ioctl_TIOCSWINSZ_def logcall_def Let_def
      split: option.splits fd_kind.splits)

text \<open>On the example process, descriptor 3 is a terminal and descriptor 4 is not open.\<close>

theorem pty_resize_single_ioctl_witness:
  "fst (pty_resize 3 40 120 ex_proc) = 0
   \<and> fds (snd (pty_resize 3 40 120 ex_proc)) 3 =
       Some (Tty \<lparr>sys_row = 40, sys_col = 120, sys_xpixel = 0, sys_ypixel = 0\<rparr>)
   \<and> fst (pty_resize 4 40 120 ex_proc) = - 1
   \<and> fds (snd (pty_resize 4 40 120 ex_proc)) = fds ex_proc"
proof -
  have ok: "fst (pty_resize 3 40 120 ex_proc) = 0"
    by (simp add: pty_resize_def ioctl_TIOCSWINSZ_def logcall_def ex_proc_def Let_def)
  have bad: "fst (pty_resize 4 40 120 ex_proc) = - 1"
    by (simp add: pty_resize_def ioctl_TIOCSWINSZ_def logcall_def ex_proc_def Let_def)
  from ok pty_resize_single_ioctl [of 3 40 120 ex_proc]
  have "fds (snd (pty_resize 3 40 120 ex_proc)) =
      (fds ex_proc)(3 \<mapsto> Tty \<lparr>sys_row = 40, sys_col = 120, sys_xpixel = 0, sys_ypixel = 0\<rparr>)"
    by blast
  moreover from bad pty_resize_single_ioctl [of 4 40 120 ex_proc]
  have "fds (snd (pty_resize 4 40 120 ex_proc)) = fds ex_proc"
    by blast
  ultimately show ?thesis using ok bad by simp
qed

text \<open>
  C9. An entry of \<open>envp\<close> without \<^verbatim>\<open>=\<close> (\<^verbatim>\<open>strchr\<close> returns the null pointer)
  leaves the process state as it is: no call is logged, \<^verbatim>\<open>errno\<close> and the
  environment are unchanged. The loop goes on with the next entry, so the whole of
  \<open>pty_spawn\<close> behaves as if the entry were not in the list.
\<close>

theorem entry_without_equals_skipped:
  assumes "strchr e CHR ''='' = None"
  shows "envp_entry e s = s
    \<and> envp_loop (pre @ e # post) 0 s = envp_loop (pre @ post) 0 s
    \<and> pty_spawn os fk file argv (Some (pre @ e # post)) wd ts ws p =
        pty_spawn os fk file argv (Some (pre @ post)) wd ts ws p"
  using assms
  by (simp add: envp_entry_skip envp_loop_skip child_envp_skip pty_spawn_paths spawn_child_cases)

text \<open>The entry \<^verbatim>\<open>JUNK\<close> between two well-formed entries.\<close>

theorem entry_without_equals_skipped_witness:
  "strchr ''JUNK'' CHR ''='' = None
   \<and> envp_entry ''JUNK'' ex_proc = ex_proc
   \<and> pty_spawn ex_sys ex_child ''/bin/sh'' [''sh''] (Some ([''A=1''] @ ''JUNK'' # [''B=2''])) None None None ex_proc =
       pty_spawn ex_sys ex_child ''/bin/sh'' [''sh''] (Some ([''A=1''] @ [''B=2''])) None None None ex_proc"
proof -
  have s: "strchr ''JUNK'' CHR ''='' = None" by simp
  from entry_without_equals_skipped [OF s, where s = ex_proc and pre = "[''A=1'']" and post = "[''B=2'']" and os = ex_sys
      and fk = ex_child and argv = "[''sh'']" and wd = None and ts = None
      and ws = None and p = ex_proc] s
  show ?thesis by blast
qed

text \<open>
  C10. When \<open>termios_settings\<close> is not null, the native structure is the zeroed
  structure with the four flag words and the control-character prefix assigned and the
  speed setters applied. If the setters leave the other members alone, then in the
  structure handed to \<^verbatim>\<open>forkpty\<close> the line discipline is 0 and every control
  character from index 32 on (when \<^verbatim>\<open>NCCS\<close> is larger than 32) is 0.
\<close>

theorem termios_zero_initialised:
  assumes "pty_termios_ok ts"
      and "keeps_other_members (cfsetispeed os)"
      and "keeps_other_members (cfsetospeed os)"
  shows "spawn_termios os ts =
           cfsetospeed os
             (cfsetispeed os
                ((zero_termios (NCCS os))
                   \<lparr>tio_iflag := ucast (c_iflag ts), tio_oflag := ucast (c_oflag ts),
                    tio_cflag := ucast (c_cflag ts), tio_lflag := ucast (c_lflag ts),
                    tio_cc := memcpy (replicate (NCCS os) 0) (c_cc ts) (min 32 (NCCS os))\<rparr>)
                (ucast (c_ispeed ts)))
             (ucast (c_ospeed ts))
    \<and> tio_line (spawn_termios os ts) = 0
    \<and> length (tio_cc (spawn_termios os ts)) = NCCS os
    \<and> (\<forall>k. 32 \<le> k \<and> k < NCCS os \<longrightarrow> tio_cc (spawn_termios os ts) ! k = 0)
    \<and> take (Suc (length (calls p)))
         (calls (final_proc (pty_spawn os fk file argv envp wd (Some ts) ws p))) =
        calls p @ [Forkpty (Some (spawn_termios os ts)) (ws_ptr ws)]"
proof -
  have a: "spawn_termios os ts =
           cfsetospeed os
             (cfsetispeed os
                ((zero_termios (NCCS os))
                   \<lparr>tio_iflag := ucast (c_iflag ts), tio_oflag := ucast (c_oflag ts),
                    tio_cflag := ucast (c_cflag ts), tio_lflag := ucast (c_lflag ts),
                    tio_cc := memcpy (replicate (NCCS os) 0) (c_cc ts) (min 32 (NCCS os))\<rparr>)
                (ucast (c_ispeed ts)))
             (ucast (c_ospeed ts))"
    by (simp add: spawn_termios_copied termios_copy_spec_zero) (simp add: zero_termios_def)
  have b: "tio_line (spawn_termios os ts) = 0"
    by (simp add: spawn_termios_other_members [OF assms(2,3)] termios_copy_spec_def)
  have c: "length (tio_cc (spawn_termios os ts)) = NCCS os"
    by (simp add: spawn_termios_other_members [OF assms(2,3)] copied_cc [OF assms(1)])
  have d: "\<forall>k. 32 \<le> k \<and> k < NCCS os \<longrightarrow> tio_cc (spawn_termios os ts) ! k = 0"
    by (simp add: spawn_termios_other_members [OF assms(2,3)] copied_cc [OF assms(1)])
  have e: "take (Suc (length (calls p)))
         (calls (final_proc (pty_spawn os fk file argv envp wd (Some ts) ws p))) =
        calls p @ [Forkpty (Some (spawn_termios os ts)) (ws_ptr ws)]"
    by (simp add: first_call_forkpty term_ptr_def)
  from a b c d e show ?thesis by blast
qed

text \<open>With 40 native control characters, index 35 is beyond the copied prefix.\<close>

theorem termios_zero_initialised_witness:
  "pty_termios_ok ex_termios
   \<and> keeps_other_members (cfsetispeed ex_sys)
   \<and> keeps_other_members (cfsetospeed ex_sys)
   \<and> (32::nat) \<le> 35 \<and> 35 < NCCS ex_sys
   \<and> tio_line (spawn_termios ex_sys ex_termios) = 0
   \<and> length (tio_cc (spawn_termios ex_sys ex_termios)) = 40
   \<and> tio_cc (spawn_termios ex_sys ex_termios) ! 35 = 0"
proof -
  have k1: "keeps_other_members (cfsetispeed ex_sys)" and k2: "keeps_other_members (cfsetospeed ex_sys)"
    by (simp_all add: keeps_other_members_def ex_sys_def)
  have n: "(32::nat) \<le> 35 \<and> 35 < NCCS ex_sys" by (simp add: ex_sys_def)
  note t = termios_zero_initialised [OF ex_termios_ok k1 k2, of ex_proc ex_child "''/bin/sh''" "[''sh'']" None None None]
  from t have 1: "tio_line (spawn_termios ex_sys ex_termios) = 0" by blast
  from t have "length (tio_cc (spawn_termios ex_sys ex_termios)) = NCCS ex_sys" by blast
  then have 2: "length (tio_cc (spawn_termios ex_sys ex_termios)) = 40" by (simp add: ex_sys_def)
  from t n have 3: "tio_cc (spawn_termios ex_sys ex_termios) ! 35 = 0" by blast
  from ex_termios_ok k1 k2 n 1 2 3 show ?thesis by blast
qed

end
